theory Spec2Isabelle
  imports Main "HOL-Library.Char_ord" "HOL-Library.List_Lexorder"
begin

section \<open>Python strings\<close>

text \<open>
  The detectors work on Python \<open>str\<close> values: names of contracts, functions, variables and
  modifiers, and the text \<open>str(node)\<close> of a control-flow node. They are modelled as
  \<^typ>\<open>string\<close>, one \<^typ>\<open>char\<close> per character, restricted to ASCII (Solidity identifiers
  are ASCII). \<open>s.lower()\<close> maps \<open>A\<close>..\<open>Z\<close> to \<open>a\<close>..\<open>z\<close>, \<open>s.replace("_", "")\<close> drops every
  underscore, and \<open>p in s\<close> is the substring test.
\<close>

text \<open>
  An ASCII capital letter is a code \<open>0x41\<close>..\<open>0x5A\<close>: bit 7 clear, bit 6 set, bit 5 clear,
  and the low five bits between 1 and 26. Lower-casing sets bit 5. (Lemma
  \<open>lower_char_ascii\<close> below restates this as the table \<open>A\<close>..\<open>Z\<close> to \<open>a\<close>..\<open>z\<close>.)
\<close>

definition lower_char :: "char \<Rightarrow> char" where
  "lower_char c =
     (case c of Char b0 b1 b2 b3 b4 b5 b6 b7 \<Rightarrow>
        if \<not> b7 \<and> b6 \<and> \<not> b5 \<and> (b0 \<or> b1 \<or> b2 \<or> b3 \<or> b4)
           \<and> \<not> (b4 \<and> b3 \<and> (b2 \<or> (b1 \<and> b0)))
        then Char b0 b1 b2 b3 b4 True b6 b7
        else c)"

definition lower :: "string \<Rightarrow> string" where
  "lower s = map lower_char s"

definition strip_underscores :: "string \<Rightarrow> string" where
  "strip_underscores s = filter (\<lambda>c. c \<noteq> CHR ''_'') s"

fun startswith :: "string \<Rightarrow> string \<Rightarrow> bool" where
  "startswith s [] = True"
| "startswith [] (p # ps) = False"
| "startswith (c # cs) (p # ps) = (c = p \<and> startswith cs ps)"

fun str_in :: "string \<Rightarrow> string \<Rightarrow> bool" where
  "str_in p [] = (p = [])"
| "str_in p (c # cs) = (startswith (c # cs) p \<or> str_in p cs)"

text \<open>
  \<open>any(cond(p) for p in patterns)\<close>: the generator is consumed from the left and stops at
  the first element that satisfies the condition.
\<close>

fun py_any :: "('a \<Rightarrow> bool) \<Rightarrow> 'a list \<Rightarrow> bool" where
  "py_any P [] = False"
| "py_any P (x # xs) = (if P x then True else py_any P xs)"

definition any_in :: "string list \<Rightarrow> string \<Rightarrow> bool" where
  "any_in patterns s = py_any (\<lambda>p. str_in p s) patterns"

section \<open>Numeric extraction\<close>

text \<open>
  \<open>L2GasCalculationRisk._check_gas_usage\<close> scans the text of a node with
  \<open>re.search(r'gas:\s*(\d+)', content)\<close> and converts the captured group with \<open>int\<close>.
  \<open>\s\<close> and \<open>\d\<close> are the ASCII members of Python's whitespace and decimal-digit classes;
  for \<open>\s\<close> these are the space, the controls \<open>0x09\<close>..\<open>0x0D\<close> and the separators
  \<open>0x1C\<close>..\<open>0x1F\<close>. \<open>int\<close> raises \<open>ValueError\<close> on a text that is not a decimal numeral,
  and also on a numeral of more than 4300 digits, the interpreter's default limit for the
  conversion between text and integer (\<open>sys.int_info.default_max_str_digits\<close>); every
  digit counts, a leading zero too. The exception is a value of the model. Integers
  themselves are unbounded.
\<close>

datatype py_error = ValueError | TypeError | AttributeError

definition is_space :: "char \<Rightarrow> bool" where
  "is_space c = (c \<in> set [CHR '' '', CHR 0x09, CHR 0x0A, CHR 0x0B, CHR 0x0C, CHR 0x0D,
                            CHR 0x1C, CHR 0x1D, CHR 0x1E, CHR 0x1F])"

definition digit_value :: "char \<Rightarrow> nat option" where
  "digit_value c = map_of (zip ''0123456789'' [0, 1, 2, 3, 4, 5, 6, 7, 8, 9]) c"

definition is_digit :: "char \<Rightarrow> bool" where
  "is_digit c = (digit_value c \<noteq> None)"

text \<open>The value of a run of decimal digits, most significant first.\<close>

fun digits_value :: "nat \<Rightarrow> string \<Rightarrow> nat option" where
  "digits_value acc [] = Some acc"
| "digits_value acc (c # cs) =
     (case digit_value c of
        None \<Rightarrow> None
      | Some d \<Rightarrow> digits_value (10 * acc + d) cs)"

definition MAX_STR_DIGITS :: nat where
  "MAX_STR_DIGITS = 4300"

text \<open>
  \<open>int(s)\<close> for a text made of digits only, as the regular expression's group is: a run
  of more than \<open>MAX_STR_DIGITS\<close> digits is refused with \<open>ValueError\<close>.
\<close>

definition int_of_digits :: "string \<Rightarrow> py_error + int" where
  "int_of_digits s =
     (if s = [] then Inl ValueError
      else case digits_value 0 s of
             None \<Rightarrow> Inl ValueError
           | Some n \<Rightarrow> if length s > MAX_STR_DIGITS then Inl ValueError else Inr (int n))"

text \<open>
  One attempt of the pattern \<open>gas:\s*(\d+)\<close> at the start of a text: the literal, then the
  longest run of whitespace, then the longest run of digits, which must not be empty. The
  two character classes are disjoint, so giving back whitespace never helps and the greedy
  choice is the only one the matcher can succeed with.
\<close>

definition match_gas_here :: "string \<Rightarrow> string option" where
  "match_gas_here s =
     (if startswith s ''gas:'' then
        let rest = dropWhile is_space (drop 4 s);
            group1 = takeWhile is_digit rest
        in if group1 = [] then None else Some group1
      else None)"

text \<open>\<open>re.search\<close>: the leftmost position at which the pattern matches.\<close>

fun re_search_gas :: "string \<Rightarrow> string option" where
  "re_search_gas [] = match_gas_here []"
| "re_search_gas (c # cs) =
     (case match_gas_here (c # cs) of
        Some g \<Rightarrow> Some g
      | None \<Rightarrow> re_search_gas cs)"

text \<open>
  The numeric extraction of \<open>_check_gas_usage\<close>: \<open>gas_match = re.search(...)\<close>, and when it
  matched, \<open>gas_value = int(gas_match.group(1))\<close>. No match is the value \<open>None\<close>.
\<close>

definition extract_gas_value :: "string \<Rightarrow> py_error + int option" where
  "extract_gas_value content =
     (case re_search_gas content of
        None \<Rightarrow> Inr None
      | Some g \<Rightarrow> (case int_of_digits g of
                    Inl e \<Rightarrow> Inl e
                  | Inr v \<Rightarrow> Inr (Some v)))"


section \<open>Python values, \<open>str\<close> and \<open>int\<close>\<close>

text \<open>
  The \<open>value\<close> attribute of a literal expression or of a constant operand holds an integer,
  a text or a boolean; \<open>PObj\<close> stands for any other object (for example the variable an
  identifier refers to), given by its \<open>str\<close> text; \<open>int\<close> rejects it with \<open>TypeError\<close>.
\<close>

datatype pyvalue = PInt int | PStr string | PBool bool | PObj string

definition digit_char :: "nat \<Rightarrow> char" where
  "digit_char d = ''0123456789'' ! (d mod 10)"

fun str_nat :: "nat \<Rightarrow> string" where
  "str_nat n = (if n < 10 then [digit_char n] else str_nat (n div 10) @ [digit_char (n mod 10)])"

declare str_nat.simps [simp del]

definition str_int :: "int \<Rightarrow> string" where
  "str_int i = (if i < 0 then CHR ''-'' # str_nat (nat (- i)) else str_nat (nat i))"

fun py_str :: "pyvalue \<Rightarrow> string" where
  "py_str (PInt i) = str_int i"
| "py_str (PStr s) = s"
| "py_str (PBool b) = (if b then ''True'' else ''False'')"
| "py_str (PObj s) = s"

text \<open>
  \<open>str(i)\<close> and the formatting of an integer inside an f-string are subject to the same
  limit as \<open>int\<close>: an integer of more than \<open>MAX_STR_DIGITS\<close> decimal digits, that is one
  whose absolute value is at least \<open>10 ^ MAX_STR_DIGITS\<close>, raises \<open>ValueError\<close>. \<open>str_int\<close>
  is the text of an integer within the limit; the constant operands of compiled code and
  the integers the detectors print after a bound check are within it.
\<close>

definition format_int :: "int \<Rightarrow> py_error + string" where
  "format_int i = (if \<bar>i\<bar> \<ge> 10 ^ MAX_STR_DIGITS then Inl ValueError else Inr (str_int i))"

text \<open>
  \<open>int(s)\<close> for an ASCII text in base 10: whitespace is stripped at both ends, one sign
  may follow, then digits, where single underscores may stand between two digits. The
  whitespace \<open>int\<close> strips from an ASCII text is the space and the controls \<open>0x09\<close>..\<open>0x0D\<close>
  (tab, line feed, vertical tab, form feed, carriage return) only: the separators
  \<open>0x1C\<close>..\<open>0x1F\<close>, which \<open>\s\<close> matches, make \<open>int\<close> raise \<open>ValueError\<close>. A numeral of more than
  \<open>MAX_STR_DIGITS\<close> digits is refused with \<open>ValueError\<close>; underscores, the sign and the
  stripped whitespace do not count as digits.
\<close>

definition int_space :: "char \<Rightarrow> bool" where
  "int_space c = (c \<in> set [CHR '' '', CHR 0x09, CHR 0x0A, CHR 0x0B, CHR 0x0C, CHR 0x0D])"

definition strip :: "string \<Rightarrow> string" where
  "strip s = rev (dropWhile int_space (rev (dropWhile int_space s)))"

fun grouped_digits_value :: "nat \<Rightarrow> bool \<Rightarrow> string \<Rightarrow> nat option" where
  "grouped_digits_value acc after_digit [] = (if after_digit then Some acc else None)"
| "grouped_digits_value acc after_digit (c # cs) =
     (if c = CHR ''_'' then
        (if after_digit then grouped_digits_value acc False cs else None)
      else case digit_value c of
             None \<Rightarrow> None
           | Some d \<Rightarrow> grouped_digits_value (10 * acc + d) True cs)"

definition int_of_str :: "string \<Rightarrow> py_error + int" where
  "int_of_str s =
     (let t = strip s;
          negative = (t \<noteq> [] \<and> hd t = CHR ''-'');
          signed = (t \<noteq> [] \<and> (hd t = CHR ''-'' \<or> hd t = CHR ''+''));
          body = (if signed then tl t else t)
      in case grouped_digits_value 0 False body of
           None \<Rightarrow> Inl ValueError
         | Some n \<Rightarrow>
             if length (filter is_digit body) > MAX_STR_DIGITS then Inl ValueError
             else Inr (if negative then - int n else int n))"

text \<open>
  The model of \<open>int\<close> is exact on ASCII text. (On a text with a character outside ASCII
  the interpreter first maps every Unicode space to a blank and every Unicode decimal
  digit to its ASCII digit.) \<open>isascii\<close> is \<open>str.isascii\<close>: bit 7 of every character is clear.
\<close>

definition isascii :: "string \<Rightarrow> bool" where
  "isascii s = list_all (\<lambda>c. \<not> digit7 c) s"

fun py_int :: "pyvalue \<Rightarrow> py_error + int" where
  "py_int (PInt i) = Inr i"
| "py_int (PStr s) = int_of_str s"
| "py_int (PBool b) = Inr (if b then 1 else 0)"
| "py_int (PObj s) = Inl TypeError"

section \<open>The contract model\<close>

text \<open>
  The detectors read the host framework's objects: a compilation unit with its contracts,
  a contract with its functions and state variables, a function with its parameters,
  modifiers and control-flow nodes, a node with its type, its text \<open>str(node)\<close>, its
  expression and its intermediate-representation operations. Each record holds the
  attributes the detectors read.
\<close>

datatype visibility = External | Public | Internal | Private

datatype node_type =
    ENTRYPOINT | EXPRESSION | RETURN | IF | VARIABLE | ASSEMBLY | IFLOOP | ENDIF
  | STARTLOOP | ENDLOOP | THROW | BREAK | CONTINUE | PLACEHOLDER | TRY | CATCH
  | OTHER_ENTRYPOINT

text \<open>
  An operand of an operation: a constant carries a \<open>value\<close> attribute, a variable does
  not (\<open>hasattr(arg, 'value')\<close> is false for it).
\<close>

datatype operand = Constant pyvalue | Variable string

fun operand_value :: "operand \<Rightarrow> pyvalue option" where
  "operand_value (Constant v) = Some v"
| "operand_value (Variable x) = None"

datatype destination = DestVariable string | DestContract string

datatype ir =
    HighLevelCall "string option" destination "operand list"
  | Assignment bool
  | OtherOperation

record node =
  n_type :: node_type
  n_str :: string
  n_expression :: "string option"
  n_contains_require_or_assert :: bool
  n_irs :: "ir list"
  n_node_id :: nat

record parameter =
  p_name :: string
  p_type :: string

record modifier =
  m_name :: string

record expression =
  e_value :: "pyvalue option"

record state_variable =
  v_name :: string
  v_canonical_name :: string
  v_type :: string
  v_expression :: "expression option"

record function_decl =
  f_name :: string
  f_canonical_name :: string
  f_visibility :: visibility
  f_is_constructor :: bool
  f_parameters :: "parameter list"
  f_modifiers :: "modifier list"
  f_nodes :: "node list"
  f_state_variables_written :: "state_variable list"
  f_internal_calls :: "string option list"

record contract =
  c_name :: string
  c_functions :: "function_decl list"
  c_state_variables :: "state_variable list"
  c_constructor :: "function_decl option"

record compilation_unit =
  contracts :: "contract list"
  contracts_derived :: "contract list"

text \<open>
  A finding is what \<open>generate_result(info)\<close> returns: the detector's \<open>ARGUMENT\<close> and the
  \<open>info\<close> list, whose elements are texts or references to the function, node or contract
  that triggered it. Message templates are kept in ASCII: a pictograph at the head of a
  label is left out and an arrow is written in words.
\<close>

datatype info_elem = Txt string | Fn function_decl | Nd node | Ct contract

datatype finding = Finding string "info_elem list"

definition generate_result :: "string \<Rightarrow> info_elem list \<Rightarrow> finding" where
  "generate_result argument info = Finding argument info"

text \<open>
  Several pattern tables are Python sets. Membership (\<open>x in S\<close>) is a hash lookup; a loop or
  a generator over a set visits its elements in an order that depends on the process's
  string hashing. That order is the parameter \<open>iter\<close> of every function that loops over a
  set; \<open>set_iteration iter\<close> says that \<open>iter\<close> visits each element of a finite set once.
\<close>

type_synonym set_iter = "string set \<Rightarrow> string list"

definition set_iteration :: "set_iter \<Rightarrow> bool" where
  "set_iteration iter = (\<forall>S. finite S \<longrightarrow> set (iter S) = S \<and> distinct (iter S))"

text \<open>
  \<open>is_dependent(arg, param, function)\<close> is the host framework's data-dependency analysis;
  it is the parameter \<open>dep\<close> of the functions that call it.
\<close>

type_synonym dependency = "operand \<Rightarrow> parameter \<Rightarrow> function_decl \<Rightarrow> bool"

section \<open>MEV detectors (\<open>mev_risks.py\<close>)\<close>

subsection \<open>\<open>MissingSlippageProtection\<close>\<close>

definition DEX_SWAP_FUNCTIONS :: "string set" where
  "DEX_SWAP_FUNCTIONS =
     {''swap'', ''swapExactTokensForTokens'', ''swapExactTokensForETH'',
      ''swapExactETHForTokens'', ''swapTokensForExactTokens'', ''exchange'',
      ''exchange_underlying'', ''sell'', ''buy'', ''exactInputSingle'', ''exactInput'',
      ''exactOutputSingle'', ''exactOutput''}"

definition MIN_OUTPUT_PARAMS :: "string set" where
  "MIN_OUTPUT_PARAMS =
     {''minamountout'', ''amountoutmin'', ''minout'', ''minimumamount'', ''minreceived'',
      ''minreturn'', ''amountoutminimum''}"

text \<open>
  The loop of \<open>_has_slippage_protection\<close> over the call's arguments, in order: a literal
  \<open>0\<close> answers False at once, an argument that depends on a parameter answers True at
  once, and running out of arguments answers False.
\<close>

fun slippage_arguments :: "dependency \<Rightarrow> function_decl \<Rightarrow> operand list \<Rightarrow> bool" where
  "slippage_arguments dep function [] = False"
| "slippage_arguments dep function (arg # args) =
     (if (case operand_value arg of None \<Rightarrow> False | Some v \<Rightarrow> py_str v = ''0'') then False
      else if py_any (\<lambda>param. dep arg param function) (f_parameters function) then True
      else slippage_arguments dep function args)"

definition has_slippage_protection ::
  "dependency \<Rightarrow> operand list \<Rightarrow> function_decl \<Rightarrow> bool" where
  "has_slippage_protection dep arguments function =
     (if py_any (\<lambda>param. strip_underscores (lower (p_name param)) \<in> MIN_OUTPUT_PARAMS)
           (f_parameters function)
      then True
      else slippage_arguments dep function arguments)"

text \<open>What one operation of a node adds to \<open>issues\<close> in \<open>_check_function_slippage\<close>.\<close>

fun slippage_issue ::
  "set_iter \<Rightarrow> dependency \<Rightarrow> function_decl \<Rightarrow> node \<Rightarrow> ir \<Rightarrow> (node \<times> string) list" where
  "slippage_issue iter dep function node (HighLevelCall function_name dest arguments) =
     (let func_name = (case function_name of None \<Rightarrow> [] | Some n \<Rightarrow> n)
      in if lower func_name \<in> set (map lower (iter DEX_SWAP_FUNCTIONS)) then
           (if \<not> has_slippage_protection dep arguments function
            then [(node, ''calls '' @ func_name @ '' without slippage protection'')]
            else [])
         else [])"
| "slippage_issue iter dep function node other = []"

definition check_function_slippage ::
  "set_iter \<Rightarrow> dependency \<Rightarrow> function_decl \<Rightarrow> (node \<times> string) list" where
  "check_function_slippage iter dep function =
     concat (map (\<lambda>node. concat (map (slippage_issue iter dep function node) (n_irs node)))
                 (f_nodes function))"

text \<open>The body of the loop over a contract's functions in \<open>_detect\<close>.\<close>

definition missing_slippage_function ::
  "set_iter \<Rightarrow> dependency \<Rightarrow> function_decl \<Rightarrow> finding list" where
  "missing_slippage_function iter dep function =
     (if f_is_constructor function \<or> f_visibility function \<in> {Private, Internal} then []
      else map (\<lambda>(node, description).
                  generate_result ''mev-missing-slippage''
                    [Txt (''MEV Risk: '' @ f_canonical_name function @ '' ''),
                     Txt description, Txt [CHR 0x0A, CHR 0x09, CHR ''-'', CHR '' ''],
                     Nd node, Txt [CHR 0x0A]])
               (check_function_slippage iter dep function))"

definition missing_slippage_detect ::
  "set_iter \<Rightarrow> dependency \<Rightarrow> compilation_unit \<Rightarrow> finding list" where
  "missing_slippage_detect iter dep cu =
     concat (map (\<lambda>contract. concat (map (missing_slippage_function iter dep)
                                          (c_functions contract)))
                 (contracts_derived cu))"

subsection \<open>\<open>ExcessiveSlippageTolerance\<close>\<close>

definition MAX_SLIPPAGE_BPS :: int where
  "MAX_SLIPPAGE_BPS = 500"

definition is_slippage_variable :: "state_variable \<Rightarrow> bool" where
  "is_slippage_variable var =
     any_in [''slippage'', ''tolerance'', ''maxslip'', ''minout''] (lower (v_name var))"

text \<open>
  \<open>_extract_numeric_value\<close>: \<open>int(expression.value)\<close> inside \<open>try\<close>, where \<open>ValueError\<close> and
  \<open>TypeError\<close> are caught and answered by \<open>None\<close>; any other exception would leave the
  function.
\<close>

definition extract_numeric_value :: "expression \<Rightarrow> py_error + int option" where
  "extract_numeric_value expression =
     (case e_value expression of
        None \<Rightarrow> Inr None
      | Some v \<Rightarrow>
          (case py_int v of
             Inr i \<Rightarrow> Inr (Some i)
           | Inl ValueError \<Rightarrow> Inr None
           | Inl TypeError \<Rightarrow> Inr None
           | Inl e \<Rightarrow> Inl e))"

text \<open>
  \<open>_check_slippage_value\<close>. \<open>if value and value > MAX\<close>: \<open>None\<close> and \<open>0\<close> are falsy. Each
  issue is the one-element list with the message; the f-string formats \<open>value\<close>, which
  raises \<open>ValueError\<close> for an integer beyond the digit limit.
\<close>

definition check_slippage_value ::
  "state_variable \<Rightarrow> contract \<Rightarrow> py_error + string list list" where
  "check_slippage_value var contract =
     (case v_expression var of
        None \<Rightarrow> Inr []
      | Some expression \<Rightarrow>
          (case extract_numeric_value expression of
             Inl e \<Rightarrow> Inl e
           | Inr None \<Rightarrow> Inr []
           | Inr (Some v) \<Rightarrow>
               (if v \<noteq> 0 \<and> v > MAX_SLIPPAGE_BPS then
                  (case format_int v of
                     Inl e \<Rightarrow> Inl e
                   | Inr text \<Rightarrow>
                       Inr [[''Excessive slippage tolerance: '' @ v_canonical_name var
                             @ '' = '' @ text @ ''bps (>'' @ str_int MAX_SLIPPAGE_BPS
                             @ ''bps)'' @ [CHR 0x0A]]])
                else Inr [])))"


text \<open>
  \<open>_detect\<close>: an exception raised for one variable leaves the whole loop, so the first
  error is the result.
\<close>

fun excessive_slippage_variables ::
  "contract \<Rightarrow> state_variable list \<Rightarrow> py_error + finding list" where
  "excessive_slippage_variables contract [] = Inr []"
| "excessive_slippage_variables contract (var # vars) =
     (if is_slippage_variable var then
        (case check_slippage_value var contract of
           Inl e \<Rightarrow> Inl e
         | Inr issues \<Rightarrow>
             (case excessive_slippage_variables contract vars of
                Inl e \<Rightarrow> Inl e
              | Inr results \<Rightarrow>
                  Inr (map (\<lambda>issue. generate_result ''mev-excessive-slippage'' (map Txt issue))
                           issues @ results)))
      else excessive_slippage_variables contract vars)"

fun excessive_slippage_contracts :: "contract list \<Rightarrow> py_error + finding list" where
  "excessive_slippage_contracts [] = Inr []"
| "excessive_slippage_contracts (contract # rest) =
     (case excessive_slippage_variables contract (c_state_variables contract) of
        Inl e \<Rightarrow> Inl e
      | Inr here \<Rightarrow>
          (case excessive_slippage_contracts rest of
             Inl e \<Rightarrow> Inl e
           | Inr results \<Rightarrow> Inr (here @ results)))"

definition excessive_slippage_detect :: "compilation_unit \<Rightarrow> py_error + finding list" where
  "excessive_slippage_detect cu = excessive_slippage_contracts (contracts_derived cu)"

text \<open>
  A flag that a loop sets to True whenever an element satisfies the condition and never
  resets: \<open>flag = init; for x in xs: if cond(x): flag = True\<close>.
\<close>

definition set_flag :: "bool \<Rightarrow> ('a \<Rightarrow> bool) \<Rightarrow> 'a list \<Rightarrow> bool" where
  "set_flag init P xs = foldl (\<lambda>flag x. if P x then True else flag) init xs"

text \<open>The text of \<open>str(node.expression) if node.expression else ""\<close>.\<close>

definition expression_content :: "node \<Rightarrow> string" where
  "expression_content node = (case n_expression node of None \<Rightarrow> [] | Some e \<Rightarrow> e)"

subsection \<open>\<open>MissingDeadlineCheck\<close>\<close>

definition DEADLINE_PARAMS :: "string set" where
  "DEADLINE_PARAMS = {''deadline'', ''expiry'', ''validuntil'', ''expires'', ''timeout''}"

definition is_swap_function :: "function_decl \<Rightarrow> bool" where
  "is_swap_function function =
     any_in [''swap'', ''exchange'', ''trade'', ''sell'', ''buy''] (lower (f_name function))"

definition has_deadline_check :: "function_decl \<Rightarrow> bool" where
  "has_deadline_check function =
     (if py_any (\<lambda>param. strip_underscores (lower (p_name param)) \<in> DEADLINE_PARAMS)
           (f_parameters function)
      then True
      else py_any (\<lambda>node. n_contains_require_or_assert node
                            \<and> (str_in ''block.timestamp'' (expression_content node)
                                \<or> str_in ''deadline'' (lower (expression_content node))))
             (f_nodes function))"

definition missing_deadline_detect :: "compilation_unit \<Rightarrow> finding list" where
  "missing_deadline_detect cu =
     concat (map (\<lambda>contract.
                    concat (map (\<lambda>function.
                                   if is_swap_function function \<and> \<not> has_deadline_check function
                                   then [generate_result ''mev-missing-deadline''
                                           [Txt (''MEV Risk: '' @ f_canonical_name function
                                                 @ '' ''),
                                            Txt (''lacks deadline check - transactions can be delayed and front-run''
                                                 @ [CHR 0x0A])]]
                                   else [])
                                (c_functions contract)))
                 (contracts_derived cu))"

subsection \<open>\<open>FlashLoanEnabler\<close>\<close>

definition FLASH_LOAN_CALLBACKS :: "string set" where
  "FLASH_LOAN_CALLBACKS =
     {''onflashloan'', ''executeOperation'', ''uniswapV2Call'', ''uniswapV3FlashCallback'',
      ''pancakeCall'', ''callee'', ''callback''}"

definition validates_caller :: "function_decl \<Rightarrow> bool" where
  "validates_caller function =
     py_any (\<lambda>node. n_contains_require_or_assert node
                     \<and> str_in ''msg.sender'' (expression_content node))
       (f_nodes function)"

definition has_reentrancy_guard :: "function_decl \<Rightarrow> bool" where
  "has_reentrancy_guard function =
     py_any (\<lambda>modifier. any_in [''nonreentrant'', ''lock'', ''mutex''] (lower (m_name modifier)))
       (f_modifiers function)"

fun is_external_call :: "contract \<Rightarrow> ir \<Rightarrow> bool" where
  "is_external_call contract (HighLevelCall function_name dest arguments) =
     (dest \<noteq> DestContract (c_name contract))"
| "is_external_call contract other = False"

fun is_state_assignment :: "ir \<Rightarrow> bool" where
  "is_state_assignment (Assignment lvalue_is_state_variable) = lvalue_is_state_variable"
| "is_state_assignment other = False"

text \<open>
  \<open>_check_flash_loan_risk\<close>. A node enters \<open>external_call_nodes\<close> once for each of its
  external calls. For each of them the inner loop stops at the first later state change
  it reports; with a reentrancy guard it reports none.
\<close>

definition check_flash_loan_risk :: "function_decl \<Rightarrow> contract \<Rightarrow> string list list" where
  "check_flash_loan_risk function contract =
     (let callback_issues =
            (if strip_underscores (lower (f_name function)) \<in> FLASH_LOAN_CALLBACKS
                \<and> \<not> validates_caller function
             then [[''Flash loan callback '' @ f_canonical_name function @ '' '',
                    ''does not validate caller - may enable unauthorized calls''
                    @ [CHR 0x0A]]]
             else []);
          external_call_nodes =
            concat (map (\<lambda>node. map (\<lambda>ir. node) (filter (is_external_call contract) (n_irs node)))
                        (f_nodes function));
          state_change_nodes =
            concat (map (\<lambda>node. map (\<lambda>ir. node) (filter is_state_assignment (n_irs node)))
                        (f_nodes function))
      in callback_issues
         @ concat (map (\<lambda>ext_node.
                          if has_reentrancy_guard function then []
                          else (case find (\<lambda>state_node. n_node_id state_node > n_node_id ext_node)
                                       state_change_nodes of
                                  None \<Rightarrow> []
                                | Some state_node \<Rightarrow>
                                    [[''State change after external call in ''
                                      @ f_canonical_name function @ '' '',
                                      ''at '' @ n_str state_node
                                      @ '' - potential flash loan/reentrancy vector''
                                      @ [CHR 0x0A]]]))
                       external_call_nodes))"

definition flash_loan_detect :: "compilation_unit \<Rightarrow> finding list" where
  "flash_loan_detect cu =
     concat (map (\<lambda>contract.
                    concat (map (\<lambda>function.
                                   if f_visibility function \<in> {External, Public} then
                                     map (\<lambda>issue. generate_result ''mev-flash-loan-enabler''
                                                    (map Txt issue))
                                         (check_flash_loan_risk function contract)
                                   else [])
                                (c_functions contract)))
                 (contracts_derived cu))"

subsection \<open>\<open>OracleManipulationRisk\<close>\<close>

definition SPOT_PRICE_FUNCTIONS :: "string set" where
  "SPOT_PRICE_FUNCTIONS =
     {''getspot'', ''getspotprice'', ''getreserves'', ''slot0'', ''getprice'', ''getrate''}"

definition TWAP_FUNCTIONS :: "string set" where
  "TWAP_FUNCTIONS = {''observe'', ''consult'', ''twap'', ''gettwap'', ''getaverageprice''}"

definition check_oracle_usage :: "set_iter \<Rightarrow> function_decl \<Rightarrow> string list list" where
  "check_oracle_usage iter function =
     (let uses_spot_price =
            foldl (\<lambda>flag node. set_flag flag (\<lambda>spot_func. str_in spot_func (lower (n_str node)))
                                   (iter SPOT_PRICE_FUNCTIONS))
                  False (f_nodes function);
          uses_twap =
            foldl (\<lambda>flag node. set_flag flag (\<lambda>twap_func. str_in twap_func (lower (n_str node)))
                                   (iter TWAP_FUNCTIONS))
                  False (f_nodes function);
          has_freshness_check =
            set_flag False
              (\<lambda>node. let content = lower (n_str node)
                       in str_in ''updatedat'' content \<or> str_in ''staleness'' content
                          \<or> str_in ''heartbeat'' content
                          \<or> (str_in ''roundid'' content \<and> n_contains_require_or_assert node))
              (f_nodes function)
      in (if uses_spot_price \<and> \<not> uses_twap
          then [[''Oracle manipulation risk in '' @ f_canonical_name function @ '': '',
                 ''uses spot price without TWAP - vulnerable to flash loan manipulation''
                 @ [CHR 0x0A]]]
          else [])
         @ (if (uses_spot_price \<or> uses_twap) \<and> \<not> has_freshness_check
            then [[''Stale oracle risk in '' @ f_canonical_name function @ '': '',
                   ''no freshness/staleness check on oracle data'' @ [CHR 0x0A]]]
            else []))"

definition oracle_manipulation_detect :: "set_iter \<Rightarrow> compilation_unit \<Rightarrow> finding list" where
  "oracle_manipulation_detect iter cu =
     concat (map (\<lambda>contract.
                    concat (map (\<lambda>function.
                                   map (\<lambda>issue. generate_result ''mev-oracle-manipulation''
                                                  (map Txt issue))
                                       (check_oracle_usage iter function))
                                (c_functions contract)))
                 (contracts_derived cu))"

text \<open>
  The shape shared by the rules that report, for a selected function, one finding per
  issue with the info \<open>[f"<label>{function.canonical_name} ", issue, "\n"]\<close>.
\<close>

definition function_issue_findings ::
  "string \<Rightarrow> string \<Rightarrow> function_decl \<Rightarrow> string list \<Rightarrow> finding list" where
  "function_issue_findings argument label function issues =
     map (\<lambda>issue. generate_result argument
                    [Txt (label @ f_canonical_name function @ '' ''), Txt issue,
                     Txt [CHR 0x0A]])
         issues"

section \<open>L2 detectors (\<open>l2_specific.py\<close>)\<close>

subsection \<open>\<open>SequencerDependency\<close>\<close>

definition TIME_SENSITIVE_FUNCTIONS :: "string set" where
  "TIME_SENSITIVE_FUNCTIONS =
     {''liquidate'', ''liquidation'', ''auction'', ''settle'', ''expire'', ''claim'',
      ''withdraw'', ''exercise'', ''executeliquidation'', ''triggerauction'', ''callmargin''}"

definition SEQUENCER_CHECK_PATTERNS :: "string set" where
  "SEQUENCER_CHECK_PATTERNS =
     {''sequenceruptimefeed'', ''sequencerstatus'', ''l2sequencer'', ''issequencerup''}"

definition is_l2_contract :: "compilation_unit \<Rightarrow> bool" where
  "is_l2_contract cu =
     py_any (\<lambda>contract.
               if any_in [''arbitrum'', ''optimism'', ''l2'', ''rollup''] (lower (c_name contract))
               then True
               else py_any (\<lambda>function.
                              py_any (\<lambda>node. any_in [''arbsys'', ''l2messenger'', ''ovmcontext'']
                                                     (lower (n_str node)))
                                (f_nodes function))
                      (c_functions contract))
       (contracts cu)"

definition is_time_sensitive :: "set_iter \<Rightarrow> function_decl \<Rightarrow> bool" where
  "is_time_sensitive iter function =
     any_in (iter TIME_SENSITIVE_FUNCTIONS) (strip_underscores (lower (f_name function)))"

definition contract_checks_sequencer :: "set_iter \<Rightarrow> contract \<Rightarrow> bool" where
  "contract_checks_sequencer iter contract =
     py_any (\<lambda>function.
               py_any (\<lambda>node. any_in (iter SEQUENCER_CHECK_PATTERNS)
                                      (strip_underscores (lower (n_str node))))
                 (f_nodes function))
       (c_functions contract)"

definition sequencer_dependency_detect :: "set_iter \<Rightarrow> compilation_unit \<Rightarrow> finding list" where
  "sequencer_dependency_detect iter cu =
     (if \<not> is_l2_contract cu then []
      else concat (map (\<lambda>contract.
                          let has_sequencer_check = contract_checks_sequencer iter contract
                          in concat (map (\<lambda>function.
                                            if is_time_sensitive iter function
                                               \<and> \<not> has_sequencer_check
                                            then [generate_result ''l2-sequencer-dependency''
                                                    [Txt (''L2 Risk: '' @ f_canonical_name function
                                                          @ '' ''),
                                                     Txt (''is time-sensitive but contract lacks sequencer uptime check''
                                                          @ [CHR 0x0A]),
                                                     Txt (''Consider using Chainlink Sequencer Uptime Feed''
                                                          @ [CHR 0x0A])]]
                                            else [])
                                         (c_functions contract)))
                       (contracts_derived cu)))"

subsection \<open>\<open>L1L2MessageRisk\<close>\<close>

definition L1L2_PATTERNS :: "string set" where
  "L1L2_PATTERNS =
     {''onlybridge'', ''onlymessenger'', ''crosschainmessage'', ''receivemessage'',
      ''finalizemessage'', ''relayermessage'', ''createretryableticket'', ''redeemticket''}"

definition is_message_handler :: "set_iter \<Rightarrow> function_decl \<Rightarrow> bool" where
  "is_message_handler iter function =
     (if any_in (iter L1L2_PATTERNS) (strip_underscores (lower (f_name function))) then True
      else py_any (\<lambda>modifier. str_in ''bridge'' (lower (m_name modifier))
                               \<or> str_in ''messenger'' (lower (m_name modifier)))
             (f_modifiers function))"

definition check_message_handler :: "function_decl \<Rightarrow> string list" where
  "check_message_handler function =
     (let has_replay_protection =
            set_flag False
              (\<lambda>node. any_in [''nonce'', ''processed'', ''executed'', ''messageid'']
                              (lower (n_str node)))
              (f_nodes function);
          has_timestamp_check =
            set_flag False
              (\<lambda>node. str_in ''block.timestamp'' (lower (n_str node))
                       \<or> str_in ''staleness'' (lower (n_str node)))
              (f_nodes function)
      in (if \<not> has_replay_protection
          then [''lacks replay protection (no nonce/processed check)''] else [])
         @ (if \<not> has_timestamp_check
            then [''no freshness validation for cross-chain data''] else []))"

definition message_risk_detect :: "set_iter \<Rightarrow> compilation_unit \<Rightarrow> finding list" where
  "message_risk_detect iter cu =
     concat (map (\<lambda>contract.
                    concat (map (\<lambda>function.
                                   if is_message_handler iter function then
                                     function_issue_findings ''l2-message-risk''
                                       ''L2 Message Risk: '' function
                                       (check_message_handler function)
                                   else [])
                                (c_functions contract)))
                 (contracts_derived cu))"

subsection \<open>\<open>AddressAliasingRisk\<close>\<close>

definition has_cross_chain_handler :: "contract \<Rightarrow> bool" where
  "has_cross_chain_handler contract =
     py_any (\<lambda>function.
               f_visibility function \<in> {External, Public}
               \<and> (if py_any (\<lambda>modifier. any_in [''bridge'', ''l1'', ''crosschain'']
                                                (lower (m_name modifier)))
                        (f_modifiers function)
                  then True
                  else any_in [''froml1'', ''onreceive'', ''relayed''] (lower (f_name function))))
       (c_functions contract)"

definition handles_address_aliasing :: "contract \<Rightarrow> bool" where
  "handles_address_aliasing contract =
     py_any (\<lambda>function.
               py_any (\<lambda>node. any_in [''addressaliashelper'', ''undol1tol2alias'',
                                       ''applyl1tol2alias'', ''1111000000000000'']
                                      (lower (n_str node)))
                 (f_nodes function))
       (c_functions contract)"

definition address_aliasing_detect :: "compilation_unit \<Rightarrow> finding list" where
  "address_aliasing_detect cu =
     concat (map (\<lambda>contract.
                    if has_cross_chain_handler contract \<and> \<not> handles_address_aliasing contract
                    then [generate_result ''l2-address-aliasing''
                            [Txt (''L2 Address Aliasing Risk: '' @ c_name contract @ '' ''),
                             Txt (''handles cross-chain messages but may not account for address aliasing''
                                  @ [CHR 0x0A]),
                             Txt (''L1 contract addresses are offset by 0x1111...1111 on L2''
                                  @ [CHR 0x0A])]]
                    else [])
                 (contracts_derived cu))"

subsection \<open>\<open>L2GasCalculationRisk\<close>\<close>

text \<open>
  What one node adds to \<open>issues\<close> in \<open>_check_gas_usage\<close>; \<open>content\<close> is \<open>str(node)\<close> as it
  is. An exception of \<open>int\<close> would leave the function.
\<close>

definition gas_usage_node :: "node \<Rightarrow> py_error + string list" where
  "gas_usage_node node =
     (let content = n_str node;
          limit_issue = (if str_in ''block.gaslimit'' content
                         then [''block.gaslimit differs significantly on L2 networks'']
                         else [])
      in if (str_in ''.call{gas:'' content \<or> str_in ''.call{value:'' content)
            \<and> str_in ''gas:'' content
         then (case extract_gas_value content of
                 Inl e \<Rightarrow> Inl e
               | Inr None \<Rightarrow> Inr limit_issue
               | Inr (Some gas_value) \<Rightarrow>
                   (if gas_value > 0 \<and> gas_value < 1000000
                    then Inr ((''hardcoded gas limit ('' @ str_int gas_value
                               @ '') may be insufficient on L2'') # limit_issue)
                    else Inr limit_issue))
         else Inr limit_issue)"

text \<open>Sequencing of steps that may raise: the first exception ends the loop.\<close>

fun collect :: "('a \<Rightarrow> py_error + 'b list) \<Rightarrow> 'a list \<Rightarrow> py_error + 'b list" where
  "collect step [] = Inr []"
| "collect step (x # xs) =
     (case step x of
        Inl e \<Rightarrow> Inl e
      | Inr here \<Rightarrow> (case collect step xs of
                       Inl e \<Rightarrow> Inl e
                     | Inr rest \<Rightarrow> Inr (here @ rest)))"

definition check_gas_usage :: "function_decl \<Rightarrow> py_error + string list" where
  "check_gas_usage function = collect gas_usage_node (f_nodes function)"

definition gas_calculation_detect :: "compilation_unit \<Rightarrow> py_error + finding list" where
  "gas_calculation_detect cu =
     collect (\<lambda>contract.
                collect (\<lambda>function.
                           case check_gas_usage function of
                             Inl e \<Rightarrow> Inl e
                           | Inr issues \<Rightarrow>
                               Inr (function_issue_findings ''l2-gas-calculation''
                                      ''L2 Gas Risk: '' function issues))
                        (c_functions contract))
             (contracts_derived cu)"

subsection \<open>\<open>ReorgRisk\<close>\<close>

definition check_finality_assumptions :: "function_decl \<Rightarrow> string list" where
  "check_finality_assumptions function =
     concat (map (\<lambda>node.
                    let content = lower (n_str node)
                    in (if str_in ''blockhash'' content
                        then [''uses blockhash - unreliable on L2 due to different finality'']
                        else [])
                       @ (if str_in ''prevrandao'' content \<or> str_in ''block.difficulty'' content
                          then [''uses prevrandao/difficulty - behavior differs on L2'']
                          else []))
                 (f_nodes function))"

definition reorg_risk_detect :: "compilation_unit \<Rightarrow> finding list" where
  "reorg_risk_detect cu =
     concat (map (\<lambda>contract.
                    concat (map (\<lambda>function.
                                   function_issue_findings ''l2-reorg-risk''
                                     ''L2 Finality Risk: '' function
                                     (check_finality_assumptions function))
                                (c_functions contract)))
                 (contracts_derived cu))"

section \<open>FCFS and tiering detectors (\<open>fcfs_tiering.py\<close>)\<close>

subsection \<open>\<open>TierBoundaryEdgeCaseDetector\<close>\<close>

definition TIER_PATTERNS :: "string list" where
  "TIER_PATTERNS = [''tier'', ''rank'', ''level'', ''boundary'', ''threshold'']"

definition handles_tiers :: "function_decl \<Rightarrow> bool" where
  "handles_tiers function =
     (if any_in TIER_PATTERNS (lower (f_name function)) then True
      else py_any (\<lambda>node. any_in TIER_PATTERNS (lower (n_str node))) (f_nodes function))"

fun tier_division_nodes :: "node list \<Rightarrow> bool" where
  "tier_division_nodes [] = False"
| "tier_division_nodes (node # nodes) =
     (let node_str = lower (n_str node)
      in if (str_in ''/ 100'' node_str \<or> str_in ''/ 1000'' node_str)
            \<and> any_in TIER_PATTERNS node_str then True
         else if str_in ''percent'' node_str \<or> str_in ''bps'' node_str then True
         else tier_division_nodes nodes)"

definition has_tier_division :: "function_decl \<Rightarrow> bool" where
  "has_tier_division function = tier_division_nodes (f_nodes function)"

definition tier_boundary_function :: "function_decl \<Rightarrow> finding list" where
  "tier_boundary_function function =
     (if \<not> handles_tiers function then []
      else if has_tier_division function then
        [generate_result ''fcfs-tier-boundary''
           [Fn function,
            Txt ('' calculates tier boundaries using integer division'' @ [CHR 0x0A]),
            Txt (''At specific staker counts (e.g., 10N+4), boundaries may collide''
                 @ [CHR 0x0A])]]
      else [])"

definition tier_boundary_detect :: "compilation_unit \<Rightarrow> finding list" where
  "tier_boundary_detect cu =
     concat (map (\<lambda>contract. concat (map tier_boundary_function (c_functions contract)))
                 (contracts_derived cu))"

subsection \<open>\<open>GhostStakerDetector\<close>\<close>

text \<open>\<open>_enforces_minimum\<close>: the loop over the nodes returns at the first node that matches.\<close>

fun enforces_minimum_nodes :: "node list \<Rightarrow> bool" where
  "enforces_minimum_nodes [] = False"
| "enforces_minimum_nodes (node # nodes) =
     (let node_str = lower (n_str node)
      in if (str_in ''require'' node_str \<or> str_in ''revert'' node_str)
            \<and> any_in [''amount > 0'', ''amount >= min'', ''minstake'', ''_amount > 0''] node_str
         then True
         else if str_in ''if'' node_str \<and> str_in ''== 0'' node_str \<and> str_in ''revert'' node_str
         then True
         else enforces_minimum_nodes nodes)"

definition enforces_minimum :: "function_decl \<Rightarrow> bool" where
  "enforces_minimum function = enforces_minimum_nodes (f_nodes function)"

definition ghost_staker_finding :: "function_decl \<Rightarrow> finding" where
  "ghost_staker_finding function =
     generate_result ''fcfs-ghost-staker''
       [Fn function,
        Txt ('' may allow zero-amount staking, creating ghost entries'' @ [CHR 0x0A])]"

definition ghost_staker_function :: "function_decl \<Rightarrow> finding list" where
  "ghost_staker_function function =
     (let func_name = lower (f_name function)
      in if \<not> any_in [''stake'', ''deposit'', ''join'', ''register''] func_name then []
         else if \<not> enforces_minimum function then [ghost_staker_finding function]
         else [])"

definition ghost_staker_detect :: "compilation_unit \<Rightarrow> finding list" where
  "ghost_staker_detect cu =
     concat (map (\<lambda>contract. concat (map ghost_staker_function (c_functions contract)))
                 (contracts_derived cu))"

subsection \<open>\<open>CascadingTierUpdateDoSDetector\<close>\<close>

definition modifies_ranking :: "function_decl \<Rightarrow> bool" where
  "modifies_ranking function =
     (if any_in [''stake'', ''unstake'', ''update'', ''rerank'', ''recalculate'']
           (lower (f_name function))
      then True
      else py_any (\<lambda>var. any_in [''rank'', ''tier'', ''position'', ''tree'', ''fenwick'']
                                 (lower (v_name var)))
             (f_state_variables_written function))"

text \<open>
  \<open>_has_cascading_loop\<close>: one pass over the nodes with the two local variables
  \<open>loop_count\<close> and \<open>has_update_in_loop\<close>; the result is the final \<open>has_update_in_loop\<close>.
\<close>

fun cascading_loop_scan :: "nat \<Rightarrow> bool \<Rightarrow> node list \<Rightarrow> bool" where
  "cascading_loop_scan loop_count has_update_in_loop [] = has_update_in_loop"
| "cascading_loop_scan loop_count has_update_in_loop (node # nodes) =
     (let loop_count' = (if n_type node \<in> {STARTLOOP, IFLOOP} then loop_count + 1
                         else loop_count);
          node_str = lower (n_str node);
          has_update_in_loop' =
            (if loop_count' > 0 then
               (if any_in [''update'', ''recalculate'', ''tier'', ''rank''] node_str then True
                else has_update_in_loop)
             else has_update_in_loop)
      in cascading_loop_scan loop_count' has_update_in_loop' nodes)"

definition has_cascading_loop :: "function_decl \<Rightarrow> bool" where
  "has_cascading_loop function = cascading_loop_scan 0 False (f_nodes function)"

definition cascade_dos_function :: "function_decl \<Rightarrow> finding list" where
  "cascade_dos_function function =
     (if \<not> modifies_ranking function then []
      else if has_cascading_loop function then
        [generate_result ''fcfs-cascade-dos''
           [Fn function,
            Txt ('' may trigger cascading tier updates with O(k x log n) gas cost''
                 @ [CHR 0x0A]),
            Txt (''Consider lazy calculation or batched updates'' @ [CHR 0x0A])]]
      else [])"

definition cascade_dos_detect :: "compilation_unit \<Rightarrow> finding list" where
  "cascade_dos_detect cu =
     concat (map (\<lambda>contract. concat (map cascade_dos_function (c_functions contract)))
                 (contracts_derived cu))"

subsection \<open>\<open>PositionGamingDetector\<close>\<close>

definition has_fcfs_mechanics :: "contract \<Rightarrow> bool" where
  "has_fcfs_mechanics contract =
     (if py_any (\<lambda>var. any_in [''rank'', ''tier'', ''position'', ''fcfs'', ''queue'']
                              (lower (v_name var)))
           (c_state_variables contract)
      then True
      else py_any (\<lambda>func. any_in [''rank'', ''tier'', ''position''] (lower (f_name func)))
             (c_functions contract))"

definition has_anti_gaming :: "contract \<Rightarrow> bool" where
  "has_anti_gaming contract =
     (if py_any (\<lambda>var. any_in [''cooldown'', ''lockup'', ''timelock'', ''commit'', ''reveal'']
                              (lower (v_name var)))
           (c_state_variables contract)
      then True
      else py_any (\<lambda>func. any_in [''cooldown'', ''commit'', ''reveal'', ''lock'']
                                  (lower (f_name func)))
             (c_functions contract))"

definition position_gaming_contract :: "contract \<Rightarrow> finding list" where
  "position_gaming_contract contract =
     (if \<not> has_fcfs_mechanics contract then []
      else if \<not> has_anti_gaming contract then
        [generate_result ''fcfs-position-gaming''
           [Ct contract,
            Txt ('' implements FCFS ranking without anti-gaming measures'' @ [CHR 0x0A]),
            Txt (''Consider cooldowns, time-weighting, or commit-reveal'' @ [CHR 0x0A])]]
      else [])"

definition position_gaming_detect :: "compilation_unit \<Rightarrow> finding list" where
  "position_gaming_detect cu = concat (map position_gaming_contract (contracts_derived cu))"

subsection \<open>\<open>FenwickTreeConsistencyDetector\<close>\<close>

definition TREE_PATTERNS :: "string list" where
  "TREE_PATTERNS = [''fenwick'', ''bit'', ''binaryindexed'', ''segmenttree'', ''rankingtree'']"

fun uses_tree_variables :: "state_variable list \<Rightarrow> bool" where
  "uses_tree_variables [] = False"
| "uses_tree_variables (var # vars) =
     (if any_in TREE_PATTERNS (lower (v_name var)) then True
      else if any_in TREE_PATTERNS (lower (v_type var)) then True
      else uses_tree_variables vars)"

definition uses_tree_structure :: "contract \<Rightarrow> bool" where
  "uses_tree_structure contract = uses_tree_variables (c_state_variables contract)"

text \<open>
  \<open>_check_consistency\<close>: \<open>stake_funcs\<close> is collected and never read; the issues come from
  \<open>unstake_funcs\<close>, in the order of the contract's functions.
\<close>

definition check_consistency :: "contract \<Rightarrow> (string \<times> function_decl) list" where
  "check_consistency contract =
     (let unstake_funcs =
            filter (\<lambda>func. any_in [''unstake'', ''withdraw'', ''leave'', ''exit'']
                                   (lower (f_name func)))
                   (c_functions contract)
      in concat (map (\<lambda>func.
                        let has_tree_remove =
                              foldl (\<lambda>flag node.
                                       if any_in [''remove'', ''delete'', ''pop'']
                                            (lower (n_str node))
                                       then True else flag)
                                    False (f_nodes func)
                        in if \<not> has_tree_remove
                           then [(''Unstake function may not remove from ranking tree'', func)]
                           else [])
                     unstake_funcs))"

definition fenwick_contract :: "contract \<Rightarrow> finding list" where
  "fenwick_contract contract =
     (if \<not> uses_tree_structure contract then []
      else map (\<lambda>(issue, location).
                  generate_result ''fcfs-fenwick-consistency''
                    [Fn location, Txt ('' '' @ issue @ [CHR 0x0A])])
               (check_consistency contract))"

definition fenwick_detect :: "compilation_unit \<Rightarrow> finding list" where
  "fenwick_detect cu = concat (map fenwick_contract (contracts_derived cu))"

section \<open>Admin security detectors (\<open>admin_security.py\<close>)\<close>

subsection \<open>\<open>ProxyUpgradeNoTimelock\<close>\<close>

definition UPGRADE_PATTERNS :: "string set" where
  "UPGRADE_PATTERNS =
     {''upgrade'', ''upgradeto'', ''upgradetoandcall'', ''setimplementation'',
      ''changeimplementation'', ''_setimplementation''}"

definition TIMELOCK_PATTERNS :: "string set" where
  "TIMELOCK_PATTERNS =
     {''timelock'', ''delay'', ''scheduledupgrade'', ''pendingimplementation'',
      ''upgradequeue'', ''mindelay''}"

definition is_proxy_or_admin :: "contract \<Rightarrow> bool" where
  "is_proxy_or_admin contract =
     any_in [''proxy'', ''admin'', ''upgradeable'', ''upgradeability'', ''proxyadmin'',
             ''transparentproxy'', ''uups'']
            (lower (c_name contract))"

definition is_upgrade_function :: "set_iter \<Rightarrow> function_decl \<Rightarrow> bool" where
  "is_upgrade_function iter function =
     any_in (iter UPGRADE_PATTERNS) (strip_underscores (lower (f_name function)))"

definition contract_has_timelock :: "set_iter \<Rightarrow> contract \<Rightarrow> bool" where
  "contract_has_timelock iter contract =
     (if py_any (\<lambda>var. any_in (iter TIMELOCK_PATTERNS) (lower (v_name var)))
           (c_state_variables contract)
      then True
      else py_any (\<lambda>function. any_in [''schedule'', ''queue'', ''execute'']
                                      (lower (f_name function)))
             (c_functions contract))"

fun upgrade_delay_nodes :: "set_iter \<Rightarrow> node list \<Rightarrow> bool" where
  "upgrade_delay_nodes iter [] = False"
| "upgrade_delay_nodes iter (node # nodes) =
     (let content = lower (n_str node)
      in if any_in (iter TIMELOCK_PATTERNS) content then True
         else if str_in ''block.timestamp'' content \<and> str_in ''>='' content then True
         else upgrade_delay_nodes iter nodes)"

definition upgrade_function_has_delay :: "set_iter \<Rightarrow> function_decl \<Rightarrow> bool" where
  "upgrade_function_has_delay iter function = upgrade_delay_nodes iter (f_nodes function)"

definition upgrade_finding :: "function_decl \<Rightarrow> finding" where
  "upgrade_finding function =
     generate_result ''admin-upgrade-no-timelock''
       [Txt (''Admin Risk: '' @ f_canonical_name function @ '' ''),
        Txt (''allows immediate proxy upgrade without timelock'' @ [CHR 0x0A]),
        Txt (''On L2: Attacker can upgrade, drain, bridge to L1 in one tx'' @ [CHR 0x0A]),
        Txt (''Recommendation: Add timelock > 7 days (L2 to L1 bridge delay)''
             @ [CHR 0x0A])]"

text \<open>The body of the loop over the contracts in \<open>_detect\<close>.\<close>

definition upgrade_no_timelock_contract :: "set_iter \<Rightarrow> contract \<Rightarrow> finding list" where
  "upgrade_no_timelock_contract iter contract =
     (if \<not> is_proxy_or_admin contract then []
      else
        let has_timelock = contract_has_timelock iter contract
        in concat (map (\<lambda>function.
                          if is_upgrade_function iter function then
                            (if \<not> has_timelock \<and> \<not> upgrade_function_has_delay iter function
                             then [upgrade_finding function]
                             else [])
                          else [])
                       (c_functions contract)))"

definition upgrade_no_timelock_detect :: "set_iter \<Rightarrow> compilation_unit \<Rightarrow> finding list" where
  "upgrade_no_timelock_detect iter cu =
     concat (map (upgrade_no_timelock_contract iter) (contracts_derived cu))"

subsection \<open>\<open>SharedDeployerRisk\<close>\<close>

definition has_admin_transfer :: "contract \<Rightarrow> bool" where
  "has_admin_transfer contract =
     py_any (\<lambda>function. any_in [''transferadmin'', ''setadmin'', ''changeadmin'']
                                (lower (f_name function)))
       (c_functions contract)"

definition has_ownership_transfer :: "contract \<Rightarrow> bool" where
  "has_ownership_transfer contract =
     py_any (\<lambda>function. any_in [''transferownership'', ''setowner'', ''changeowner'']
                                (lower (f_name function)))
       (c_functions contract)"

definition check_deployer_patterns :: "contract \<Rightarrow> string list" where
  "check_deployer_patterns contract =
     (case c_constructor contract of
        None \<Rightarrow> []
      | Some constructor \<Rightarrow>
          concat (map (\<lambda>node.
                         let content = lower (n_str node)
                         in (if str_in ''msg.sender'' content \<and> str_in ''admin'' content
                                \<and> \<not> has_admin_transfer contract
                             then [''assigns deployer (msg.sender) as admin without transfer mechanism'']
                             else [])
                            @ (if str_in ''msg.sender'' content \<and> str_in ''owner'' content
                                  \<and> \<not> has_ownership_transfer contract
                               then [''assigns deployer as owner - ensure ownership is transferred to multi-sig'']
                               else []))
                      (f_nodes constructor)))"

definition shared_deployer_detect :: "compilation_unit \<Rightarrow> finding list" where
  "shared_deployer_detect cu =
     concat (map (\<lambda>contract.
                    map (\<lambda>issue. generate_result ''admin-shared-deployer''
                                   [Txt (''Admin Risk: '' @ c_name contract @ '' ''),
                                    Txt issue, Txt [CHR 0x0A]])
                        (check_deployer_patterns contract))
                 (contracts_derived cu))"

subsection \<open>\<open>L2BridgeExitRisk\<close>\<close>

definition ADMIN_PATTERNS :: "string set" where
  "ADMIN_PATTERNS =
     {''onlyadmin'', ''onlyowner'', ''onlygovernance'', ''onlyauthorized'', ''adminonly''}"

definition is_admin_withdrawal :: "set_iter \<Rightarrow> function_decl \<Rightarrow> bool" where
  "is_admin_withdrawal iter function =
     (let name = lower (f_name function);
          is_withdrawal = any_in [''withdraw'', ''rescue'', ''recover'', ''sweep'',
                                  ''transfer'', ''bridge''] name
      in if \<not> is_withdrawal then False
         else py_any (\<lambda>modifier. any_in (iter ADMIN_PATTERNS) (lower (m_name modifier)))
                (f_modifiers function))"

text \<open>A flag that a loop over the nodes sets when a node's text holds one of the terms.\<close>

definition some_node_has :: "string list \<Rightarrow> node list \<Rightarrow> bool" where
  "some_node_has terms nodes =
     foldl (\<lambda>flag node. if any_in terms (lower (n_str node)) then True else flag) False nodes"

definition check_withdrawal_safety :: "function_decl \<Rightarrow> string list" where
  "check_withdrawal_safety function =
     (let has_limit = some_node_has [''maxwithdrawal'', ''withdrawallimit'', ''dailylimit'']
                        (f_nodes function);
          has_delay = some_node_has [''delay'', ''timelock'', ''pending''] (f_nodes function);
          has_multisig = some_node_has [''multisig'', ''threshold'', ''signatures'']
                           (f_nodes function)
      in (if \<not> has_limit then [''no withdrawal limit - admin can drain all funds''] else [])
         @ (if \<not> has_delay then [''no withdrawal delay - instant drain possible''] else [])
         @ (if \<not> has_multisig
            then [''no multi-sig requirement - single key compromise sufficient'']
            else []))"

definition bridge_exit_detect :: "set_iter \<Rightarrow> compilation_unit \<Rightarrow> finding list" where
  "bridge_exit_detect iter cu =
     concat (map (\<lambda>contract.
                    concat (map (\<lambda>function.
                                   if is_admin_withdrawal iter function then
                                     function_issue_findings ''l2-bridge-exit-risk''
                                       ''L2 Exit Risk: '' function
                                       (check_withdrawal_safety function)
                                   else [])
                                (c_functions contract)))
                 (contracts_derived cu))"

subsection \<open>\<open>EmergencyWithdrawRisk\<close>\<close>

definition EMERGENCY_PATTERNS :: "string set" where
  "EMERGENCY_PATTERNS = {''emergency'', ''rescue'', ''recover'', ''sweep'', ''panic''}"

definition is_emergency_function :: "set_iter \<Rightarrow> function_decl \<Rightarrow> bool" where
  "is_emergency_function iter function =
     any_in (iter EMERGENCY_PATTERNS) (lower (f_name function))"

definition check_emergency_safety :: "function_decl \<Rightarrow> string list" where
  "check_emergency_safety function =
     (let restricted_to_admin =
            foldl (\<lambda>flag modifier.
                     if any_in [''admin'', ''owner'', ''governance''] (lower (m_name modifier))
                     then True else flag)
                  False (f_modifiers function);
          requires_user_action =
            foldl (\<lambda>flag node.
                     let content = lower (n_str node)
                     in if str_in ''msg.sender'' content
                           \<and> any_in [''user'', ''depositor'', ''position''] content
                        then True else flag)
                  False (f_nodes function);
          has_token_whitelist =
            foldl (\<lambda>flag node.
                     let content = lower (n_str node)
                     in if str_in ''allowedtoken'' content \<or> str_in ''rescuetokens'' content
                        then True else flag)
                  False (f_nodes function)
      in (if restricted_to_admin \<and> \<not> requires_user_action
          then [''admin can withdraw without user consent''] else [])
         @ (if \<not> has_token_whitelist
            then [''no token whitelist - can rescue any token including user deposits'']
            else []))"

definition emergency_withdraw_detect :: "set_iter \<Rightarrow> compilation_unit \<Rightarrow> finding list" where
  "emergency_withdraw_detect iter cu =
     concat (map (\<lambda>contract.
                    concat (map (\<lambda>function.
                                   if is_emergency_function iter function then
                                     function_issue_findings ''admin-emergency-withdraw''
                                       ''Emergency Risk: '' function
                                       (check_emergency_safety function)
                                   else [])
                                (c_functions contract)))
                 (contracts_derived cu))"

subsection \<open>\<open>MultiSigBypassRisk\<close>\<close>

definition is_multisig_contract :: "contract \<Rightarrow> bool" where
  "is_multisig_contract contract =
     any_in [''multisig'', ''gnosis'', ''safe'', ''wallet'', ''signers'']
            (lower (c_name contract))"

definition multisig_function_has_delay :: "function_decl \<Rightarrow> bool" where
  "multisig_function_has_delay function =
     py_any (\<lambda>node. any_in [''delay'', ''timelock'', ''pending'', ''queue'']
                            (lower (n_str node)))
       (f_nodes function)"

definition check_multisig_safety :: "contract \<Rightarrow> string list" where
  "check_multisig_safety contract =
     concat (map (\<lambda>function.
                    let name = lower (f_name function)
                    in (if str_in ''threshold'' name \<and> \<not> multisig_function_has_delay function
                        then [''threshold change has no timelock''] else [])
                       @ (if any_in [''addsigner'', ''removesigner'', ''addowner'',
                                     ''removeowner''] name
                             \<and> \<not> multisig_function_has_delay function
                          then [''signer management has no timelock''] else []))
                 (c_functions contract))"

definition multisig_bypass_detect :: "compilation_unit \<Rightarrow> finding list" where
  "multisig_bypass_detect cu =
     concat (map (\<lambda>contract.
                    if is_multisig_contract contract then
                      map (\<lambda>issue. generate_result ''admin-multisig-bypass''
                                     [Txt (''Multi-Sig Risk: '' @ c_name contract @ '' ''),
                                      Txt issue, Txt [CHR 0x0A]])
                          (check_multisig_safety contract)
                    else [])
                 (contracts_derived cu))"

section \<open>Emerging protocol detectors (\<open>emerging_protocols.py\<close>)\<close>

subsection \<open>\<open>RestakingSlashingRisk\<close>\<close>

definition SLASHING_PATTERNS :: "string set" where
  "SLASHING_PATTERNS =
     {''slash'', ''penalize'', ''slashing'', ''penalty'', ''punish'', ''confiscate''}"

definition is_restaking_contract :: "contract \<Rightarrow> bool" where
  "is_restaking_contract contract =
     any_in [''restaking'', ''eigenlayer'', ''avs'', ''operator'', ''delegation'', ''staking'',
             ''symbiotic'', ''vault'']
            (lower (c_name contract))"

definition is_slashing_function :: "set_iter \<Rightarrow> function_decl \<Rightarrow> bool" where
  "is_slashing_function iter function =
     any_in (iter SLASHING_PATTERNS) (strip_underscores (lower (f_name function)))"

definition check_slashing_safety :: "function_decl \<Rightarrow> contract \<Rightarrow> string list" where
  "check_slashing_safety function contract =
     (let tracks_cumulative0 =
            set_flag False
              (\<lambda>var. str_in ''cumulativeslash'' (lower (v_name var))
                      \<or> str_in ''totalslash'' (lower (v_name var)))
              (c_state_variables contract);
          has_cap0 =
            set_flag False
              (\<lambda>var. str_in ''slashingcap'' (lower (v_name var))
                      \<or> str_in ''maxslash'' (lower (v_name var)))
              (c_state_variables contract);
          has_cap =
            set_flag has_cap0
              (\<lambda>node. str_in ''maxslash'' (lower (n_str node)) \<or> str_in ''cap'' (lower (n_str node)))
              (f_nodes function);
          has_circuit_breaker =
            set_flag False
              (\<lambda>node. str_in ''paused'' (lower (n_str node))
                       \<or> str_in ''emergency'' (lower (n_str node)))
              (f_nodes function);
          tracks_cumulative =
            set_flag tracks_cumulative0
              (\<lambda>node. (str_in ''cumulative'' (lower (n_str node))
                        \<or> str_in ''+='' (lower (n_str node)))
                       \<and> any_in [''slash'', ''penalty''] (lower (n_str node)))
              (f_nodes function)
      in (if \<not> has_cap then [''no slashing cap implemented - cascade risk''] else [])
         @ (if \<not> tracks_cumulative
            then [''doesn't track cumulative slashing across AVS''] else [])
         @ (if \<not> has_circuit_breaker
            then [''no circuit breaker for excessive slashing''] else []))"

definition slashing_risk_detect :: "set_iter \<Rightarrow> compilation_unit \<Rightarrow> finding list" where
  "slashing_risk_detect iter cu =
     concat (map (\<lambda>contract.
                    if \<not> is_restaking_contract contract then []
                    else concat (map (\<lambda>function.
                                        if is_slashing_function iter function then
                                          function_issue_findings ''restaking-slashing-risk''
                                            ''Restaking Risk: '' function
                                            (check_slashing_safety function contract)
                                        else [])
                                     (c_functions contract)))
                 (contracts_derived cu))"

subsection \<open>\<open>RestakingDelegationRisk\<close>\<close>

definition DELEGATION_PATTERNS :: "string set" where
  "DELEGATION_PATTERNS =
     {''delegate'', ''undelegate'', ''redelegate'', ''setoperator'', ''chooseoperator'',
      ''selectvalidator''}"

definition is_delegation_function :: "set_iter \<Rightarrow> function_decl \<Rightarrow> bool" where
  "is_delegation_function iter function =
     any_in (iter DELEGATION_PATTERNS) (strip_underscores (lower (f_name function)))"

definition check_delegation_safety :: "function_decl \<Rightarrow> string list" where
  "check_delegation_safety function =
     (let has_cooldown0 =
            set_flag False
              (\<lambda>node. any_in [''cooldown'', ''waitperiod'', ''delay''] (lower (n_str node)))
              (f_nodes function);
          has_timelock =
            set_flag False
              (\<lambda>node. str_in ''block.timestamp'' (lower (n_str node))
                       \<and> any_in [''>='', ''>'', ''after''] (lower (n_str node)))
              (f_nodes function);
          has_cooldown =
            set_flag has_cooldown0
              (\<lambda>modifier. any_in [''cooldown'', ''delay'', ''timelock''] (lower (m_name modifier)))
              (f_modifiers function)
      in if \<not> has_cooldown \<and> \<not> has_timelock
         then [''no cooldown/timelock - vulnerable to frontrunning'']
         else [])"

definition delegation_risk_detect :: "set_iter \<Rightarrow> compilation_unit \<Rightarrow> finding list" where
  "delegation_risk_detect iter cu =
     concat (map (\<lambda>contract.
                    concat (map (\<lambda>function.
                                   if is_delegation_function iter function then
                                     function_issue_findings ''restaking-delegation-risk''
                                       ''Delegation Risk: '' function
                                       (check_delegation_safety function)
                                   else [])
                                (c_functions contract)))
                 (contracts_derived cu))"

subsection \<open>\<open>IntentReplayRisk\<close>\<close>

definition INTENT_PATTERNS :: "string set" where
  "INTENT_PATTERNS =
     {''executeintent'', ''fillorder'', ''settleintent'', ''resolveintent'', ''executesigned'',
      ''fillsigned''}"

definition is_intent_handler :: "set_iter \<Rightarrow> function_decl \<Rightarrow> bool" where
  "is_intent_handler iter function =
     any_in (iter INTENT_PATTERNS) (strip_underscores (lower (f_name function)))"

definition mentions_nonce :: "node \<Rightarrow> bool" where
  "mentions_nonce node =
     (str_in ''nonce'' (lower (n_str node)) \<or> str_in ''executed'' (lower (n_str node))
      \<or> str_in ''consumed'' (lower (n_str node)))"

definition check_intent_safety :: "function_decl \<Rightarrow> string list" where
  "check_intent_safety function =
     (let has_nonce_check =
            set_flag False
              (\<lambda>node. mentions_nonce node \<and> n_contains_require_or_assert node)
              (f_nodes function);
          marks_consumed =
            set_flag False
              (\<lambda>node. mentions_nonce node
                       \<and> (str_in ''= true'' (lower (n_str node)) \<or> str_in ''['' (lower (n_str node))))
              (f_nodes function);
          has_expiry_check =
            set_flag False
              (\<lambda>node. any_in [''deadline'', ''expiry'', ''validuntil''] (lower (n_str node))
                       \<and> (str_in ''block.timestamp'' (lower (n_str node))
                           \<or> n_contains_require_or_assert node))
              (f_nodes function)
      in (if \<not> has_nonce_check
          then [''no nonce/consumed check - intent may be replayed''] else [])
         @ (if \<not> has_expiry_check
            then [''no expiry validation - stale intents may execute''] else [])
         @ (if \<not> marks_consumed
            then [''intent not marked as consumed after execution''] else []))"

definition intent_replay_detect :: "set_iter \<Rightarrow> compilation_unit \<Rightarrow> finding list" where
  "intent_replay_detect iter cu =
     concat (map (\<lambda>contract.
                    concat (map (\<lambda>function.
                                   if is_intent_handler iter function then
                                     function_issue_findings ''intent-replay-risk''
                                       ''Intent Risk: '' function (check_intent_safety function)
                                   else [])
                                (c_functions contract)))
                 (contracts_derived cu))"

subsection \<open>\<open>SolverCollusionRisk\<close>\<close>

definition is_solver_contract :: "contract \<Rightarrow> bool" where
  "is_solver_contract contract =
     any_in [''solver'', ''resolver'', ''filler'', ''relayer'', ''settler'']
            (lower (c_name contract))"

definition check_solver_fairness :: "contract \<Rightarrow> string list" where
  "check_solver_fairness contract =
     (let has_auction =
            set_flag False
              (\<lambda>function. any_in [''auction'', ''bid'', ''compete''] (lower (f_name function)))
              (c_functions contract);
          has_reputation =
            set_flag False
              (\<lambda>function. any_in [''reputation'', ''score'', ''slash''] (lower (f_name function)))
              (c_functions contract);
          has_price_check =
            foldl (\<lambda>flag function.
                     set_flag flag
                       (\<lambda>node. any_in [''minprice'', ''priceimprovement'', ''marketprice'']
                                       (lower (n_str node)))
                       (f_nodes function))
                  False (c_functions contract)
      in (if \<not> has_auction
          then [''no solver auction mechanism - single solver may extract value''] else [])
         @ (if \<not> has_price_check then [''no price improvement validation''] else [])
         @ (if \<not> has_reputation then [''no solver reputation/slashing mechanism''] else []))"

definition solver_collusion_detect :: "compilation_unit \<Rightarrow> finding list" where
  "solver_collusion_detect cu =
     concat (map (\<lambda>contract.
                    if is_solver_contract contract then
                      map (\<lambda>issue. generate_result ''solver-collusion-risk''
                                     [Txt (''Solver Risk: '' @ c_name contract @ '' ''),
                                      Txt issue, Txt [CHR 0x0A]])
                          (check_solver_fairness contract)
                    else [])
                 (contracts_derived cu))"

subsection \<open>\<open>PointsSybilRisk\<close>\<close>

definition POINTS_PATTERNS :: "string set" where
  "POINTS_PATTERNS =
     {''addpoints'', ''accumulatepoints'', ''awardpoints'', ''updatepoints'', ''claimpoints'',
      ''refer'', ''referral''}"

definition is_points_function :: "set_iter \<Rightarrow> function_decl \<Rightarrow> bool" where
  "is_points_function iter function =
     any_in (iter POINTS_PATTERNS) (strip_underscores (lower (f_name function)))"

definition check_points_safety :: "function_decl \<Rightarrow> string list" where
  "check_points_safety function =
     (let has_time_weight =
            set_flag False
              (\<lambda>node. any_in [''timeweight'', ''duration'', ''elapsed''] (lower (n_str node)))
              (f_nodes function);
          has_min_duration =
            set_flag False
              (\<lambda>node. any_in [''minduration'', ''lockperiod'', ''vestingstart'']
                              (lower (n_str node)))
              (f_nodes function);
          has_cap =
            set_flag False
              (\<lambda>node. any_in [''maxpoints'', ''cap'', ''limit''] (lower (n_str node)))
              (f_nodes function)
      in (if \<not> has_time_weight \<and> \<not> has_min_duration
          then [''no time-weighting - vulnerable to flash loan point farming''] else [])
         @ (if str_in ''referral'' (lower (f_name function)) \<and> \<not> has_cap
            then [''referral rewards not capped - Sybil risk''] else []))"

definition points_sybil_detect :: "set_iter \<Rightarrow> compilation_unit \<Rightarrow> finding list" where
  "points_sybil_detect iter cu =
     concat (map (\<lambda>contract.
                    concat (map (\<lambda>function.
                                   if is_points_function iter function then
                                     function_issue_findings ''points-sybil-risk''
                                       ''Points Risk: '' function (check_points_safety function)
                                   else [])
                                (c_functions contract)))
                 (contracts_derived cu))"

subsection \<open>\<open>MerkleProofRisk\<close>\<close>

text \<open>\<open>" ".join(params)\<close>.\<close>

fun join_spaces :: "string list \<Rightarrow> string" where
  "join_spaces [] = []"
| "join_spaces [s] = s"
| "join_spaces (s # t # rest) = s @ '' '' @ join_spaces (t # rest)"

definition is_merkle_claim :: "function_decl \<Rightarrow> bool" where
  "is_merkle_claim function =
     (let name = lower (f_name function);
          params = map (\<lambda>p. lower (p_name p)) (f_parameters function)
      in (str_in ''claim'' name \<or> str_in ''redeem'' name)
         \<and> str_in ''proof'' (join_spaces params))"

definition check_merkle_safety :: "function_decl \<Rightarrow> contract \<Rightarrow> string list" where
  "check_merkle_safety function contract =
     (let has_claim_tracking0 =
            set_flag False
              (\<lambda>var. str_in ''claimed'' (lower (v_name var))
                      \<or> str_in ''redeemed'' (lower (v_name var)))
              (c_state_variables contract);
          verifies_sender =
            set_flag False
              (\<lambda>node. (str_in ''merkle'' (lower (n_str node)) \<or> str_in ''verify'' (lower (n_str node)))
                       \<and> str_in ''msg.sender'' (lower (n_str node)))
              (f_nodes function);
          has_claim_tracking =
            set_flag has_claim_tracking0
              (\<lambda>node. str_in ''claimed['' (lower (n_str node))
                       \<or> str_in ''redeemed['' (lower (n_str node)))
              (f_nodes function)
      in (if \<not> has_claim_tracking then [''no claim tracking - double claim possible''] else [])
         @ (if \<not> verifies_sender
            then [''proof doesn't include msg.sender - proof may be reused''] else []))"

definition merkle_proof_detect :: "compilation_unit \<Rightarrow> finding list" where
  "merkle_proof_detect cu =
     concat (map (\<lambda>contract.
                    concat (map (\<lambda>function.
                                   if is_merkle_claim function then
                                     function_issue_findings ''merkle-proof-risk''
                                       ''Merkle Risk: '' function
                                       (check_merkle_safety function contract)
                                   else [])
                                (c_functions contract)))
                 (contracts_derived cu))"

section \<open>Cryptographic primitive detectors (\<open>cryptographic_primitives.py\<close>)\<close>

subsection \<open>\<open>BN254ZeroPointDetector\<close>\<close>

definition CRYPTO_PATTERNS :: "string list" where
  "CRYPTO_PATTERNS =
     [''bn254'', ''bls'', ''g1point'', ''g2point'', ''pairing'', ''verifysignature'',
      ''verifyproof'', ''aggregate'', ''ecadd'', ''ecmul'', ''ecpairing'']"

text \<open>
  \<open>_handles_crypto\<close>. An element of \<open>internal_calls\<close> is the text of its \<open>name\<close> attribute,
  or \<open>None\<close> when it has none.
\<close>

definition handles_crypto :: "function_decl \<Rightarrow> bool" where
  "handles_crypto function =
     (if any_in CRYPTO_PATTERNS (lower (f_name function)) then True
      else if py_any (\<lambda>param.
                        (str_in ''uint256[2]'' (lower (p_type param))
                         \<or> str_in ''uint256[4]'' (lower (p_type param)))
                        \<and> any_in [''key'', ''point'', ''sig'', ''pub'', ''g1'', ''g2'']
                                  (lower (p_name param)))
                (f_parameters function)
      then True
      else py_any (\<lambda>call. case call of
                            None \<Rightarrow> False
                          | Some name \<Rightarrow> any_in CRYPTO_PATTERNS (lower name))
             (f_internal_calls function))"

definition zero_patterns :: "string list" where
  "zero_patterns =
     [''!= 0'', ''!= 0x0'', ''!= address(0)'', ''> 0'', ''point.x != 0'', ''point.y != 0'',
      ''require(.*key.*!= 0'', ''require(.*point.*!= 0'']"

text \<open>\<open>_has_zero_check\<close>; its local \<open>source\<close> is assigned and never read.\<close>

definition has_zero_check :: "function_decl \<Rightarrow> bool" where
  "has_zero_check function =
     py_any (\<lambda>node. py_any (\<lambda>pattern. str_in (lower pattern) (lower (n_str node))) zero_patterns)
       (f_nodes function)"

definition zero_point_detect :: "compilation_unit \<Rightarrow> finding list" where
  "zero_point_detect cu =
     concat (map (\<lambda>contract.
                    concat (map (\<lambda>function.
                                   if \<not> handles_crypto function then []
                                   else if \<not> has_zero_check function then
                                     [generate_result ''crypto-bn254-zero-point''
                                        [Fn function,
                                         Txt ('' handles BN254/BLS points but may not validate against zero point (0,0)''
                                              @ [CHR 0x0A]),
                                         Txt (''Zero point is the identity element and can bypass signature verification''
                                              @ [CHR 0x0A])]]
                                   else [])
                                (c_functions contract)))
                 (contracts_derived cu))"

subsection \<open>\<open>RogueKeyAttackDetector\<close>\<close>

definition is_key_registration :: "function_decl \<Rightarrow> bool" where
  "is_key_registration function =
     (if any_in [''register'', ''setkey'', ''addkey'', ''updatekey'', ''setpublic'']
           (lower (f_name function))
      then py_any (\<lambda>param. any_in [''key'', ''pubkey'', ''public'', ''g1'', ''g2'']
                                   (lower (p_name param)))
             (f_parameters function)
      else False)"

definition has_pop_verification :: "function_decl \<Rightarrow> bool" where
  "has_pop_verification function =
     (if py_any (\<lambda>node. any_in [''verify'', ''proof'', ''signature'', ''pop'']
                                (lower (n_str node)))
           (f_nodes function)
      then True
      else py_any (\<lambda>param. any_in [''proof'', ''signature'', ''pop'', ''attestation'']
                                   (lower (p_name param)))
             (f_parameters function))"

definition rogue_key_detect :: "compilation_unit \<Rightarrow> finding list" where
  "rogue_key_detect cu =
     concat (map (\<lambda>contract.
                    concat (map (\<lambda>function.
                                   if \<not> is_key_registration function then []
                                   else if \<not> has_pop_verification function then
                                     [generate_result ''crypto-rogue-key''
                                        [Fn function,
                                         Txt ('' registers BLS/BN254 keys without proof-of-possession''
                                              @ [CHR 0x0A]),
                                         Txt (''This enables rogue key attacks on aggregate signatures''
                                              @ [CHR 0x0A])]]
                                   else [])
                                (c_functions contract)))
                 (contracts_derived cu))"

subsection \<open>\<open>SignatureMalleabilityDetector\<close>\<close>

fun malleability_check_nodes :: "node list \<Rightarrow> bool" where
  "malleability_check_nodes [] = False"
| "malleability_check_nodes (node # nodes) =
     (let node_str = lower (n_str node)
      in if str_in ''s <'' node_str \<or> str_in ''s <='' node_str then True
         else if str_in ''secp256k1'' node_str \<and> str_in ''div'' node_str then True
         else if str_in ''ecdsa.recover'' node_str \<or> str_in ''ecdsa.tryrecover'' node_str
         then True
         else malleability_check_nodes nodes)"

definition has_malleability_check :: "function_decl \<Rightarrow> bool" where
  "has_malleability_check function = malleability_check_nodes (f_nodes function)"

definition sig_malleability_detect :: "compilation_unit \<Rightarrow> finding list" where
  "sig_malleability_detect cu =
     concat (map (\<lambda>contract.
                    concat (map (\<lambda>function.
                                   concat (map (\<lambda>node.
                                                  if str_in ''ecrecover'' (lower (n_str node))
                                                     \<and> \<not> has_malleability_check function
                                                  then [generate_result ''crypto-sig-malleability''
                                                          [Nd node,
                                                           Txt ('' uses ecrecover without s-value malleability protection''
                                                                @ [CHR 0x0A])]]
                                                  else [])
                                               (f_nodes function)))
                                (c_functions contract)))
                 (contracts_derived cu))"

subsection \<open>\<open>ZKProofVerificationGapDetector\<close>\<close>

definition ZK_PATTERNS :: "string list" where
  "ZK_PATTERNS = [''verify'', ''proof'', ''groth16'', ''plonk'', ''snark'', ''stark'']"

definition handles_zk :: "function_decl \<Rightarrow> bool" where
  "handles_zk function =
     (if any_in ZK_PATTERNS (lower (f_name function)) then True
      else py_any (\<lambda>param. str_in ''proof'' (lower (p_name param))) (f_parameters function))"

definition check_verification_completeness :: "function_decl \<Rightarrow> string list" where
  "check_verification_completeness function =
     (let has_return_check =
            set_flag False
              (\<lambda>node. str_in ''require'' (lower (n_str node)) \<and> str_in ''verify'' (lower (n_str node)))
              (f_nodes function);
          has_revert =
            set_flag False (\<lambda>node. str_in ''revert'' (lower (n_str node))) (f_nodes function)
      in if \<not> has_return_check \<and> \<not> has_revert
         then [''ZK verification result may not be checked'']
         else [])"

definition zk_gap_detect :: "compilation_unit \<Rightarrow> finding list" where
  "zk_gap_detect cu =
     concat (map (\<lambda>contract.
                    concat (map (\<lambda>function.
                                   if \<not> handles_zk function then []
                                   else map (\<lambda>issue. generate_result ''crypto-zk-verification-gap''
                                                       [Fn function,
                                                        Txt ('' '' @ issue @ [CHR 0x0A])])
                                            (check_verification_completeness function))
                                (c_functions contract)))
                 (contracts_derived cu))"

subsection \<open>\<open>PrecompileGasExhaustionDetector\<close>\<close>

definition ECC_PRECOMPILES :: "string list" where
  "ECC_PRECOMPILES = [''ecadd'', ''ecmul'', ''ecpairing'', ''ecrecover'', ''modexp'']"

definition count_precompile_uses :: "function_decl \<Rightarrow> nat" where
  "count_precompile_uses function =
     foldl (\<lambda>count node.
              foldl (\<lambda>count precompile.
                       if str_in precompile (lower (n_str node)) then count + 1 else count)
                    count ECC_PRECOMPILES)
           0 (f_nodes function)"

definition precompile_gas_detect :: "compilation_unit \<Rightarrow> finding list" where
  "precompile_gas_detect cu =
     concat (map (\<lambda>contract.
                    concat (map (\<lambda>function.
                                   let precompile_uses = count_precompile_uses function
                                   in if precompile_uses > 0 then
                                        [generate_result ''crypto-precompile-gas-l2''
                                           [Fn function,
                                            Txt ('' uses '' @ str_nat precompile_uses
                                                 @ '' ECC precompile(s) which may have higher gas costs on L2''
                                                 @ [CHR 0x0A]),
                                            Txt (''Consider L2-specific gas testing''
                                                 @ [CHR 0x0A])]]
                                      else [])
                                (c_functions contract)))
                 (contracts_derived cu))"

section \<open>The catalogue (\<open>__init__.py\<close>)\<close>

datatype detector =
    MissingSlippageProtection | ExcessiveSlippageTolerance | MissingDeadlineCheck
  | FlashLoanEnabler | OracleManipulationRisk
  | SequencerDependency | L1L2MessageRisk | AddressAliasingRisk | L2GasCalculationRisk
  | ReorgRisk
  | RestakingSlashingRisk | RestakingDelegationRisk | IntentReplayRisk | SolverCollusionRisk
  | PointsSybilRisk | MerkleProofRisk
  | ProxyUpgradeNoTimelock | SharedDeployerRisk | L2BridgeExitRisk | EmergencyWithdrawRisk
  | MultiSigBypassRisk
  | BN254ZeroPointDetector | RogueKeyAttackDetector | SignatureMalleabilityDetector
  | ZKProofVerificationGapDetector | PrecompileGasExhaustionDetector
  | TierBoundaryEdgeCaseDetector | GhostStakerDetector | CascadingTierUpdateDoSDetector
  | PositionGamingDetector | FenwickTreeConsistencyDetector

definition MEV_DETECTORS :: "detector list" where
  "MEV_DETECTORS =
     [MissingSlippageProtection, ExcessiveSlippageTolerance, MissingDeadlineCheck,
      FlashLoanEnabler, OracleManipulationRisk]"

definition L2_DETECTORS :: "detector list" where
  "L2_DETECTORS =
     [SequencerDependency, L1L2MessageRisk, AddressAliasingRisk, L2GasCalculationRisk,
      ReorgRisk]"

definition EMERGING_DETECTORS :: "detector list" where
  "EMERGING_DETECTORS =
     [RestakingSlashingRisk, RestakingDelegationRisk, IntentReplayRisk, SolverCollusionRisk,
      PointsSybilRisk, MerkleProofRisk]"

definition ADMIN_DETECTORS :: "detector list" where
  "ADMIN_DETECTORS =
     [ProxyUpgradeNoTimelock, SharedDeployerRisk, L2BridgeExitRisk, EmergencyWithdrawRisk,
      MultiSigBypassRisk]"

definition CRYPTO_DETECTORS :: "detector list" where
  "CRYPTO_DETECTORS =
     [BN254ZeroPointDetector, RogueKeyAttackDetector, SignatureMalleabilityDetector,
      ZKProofVerificationGapDetector, PrecompileGasExhaustionDetector]"

definition FCFS_DETECTORS :: "detector list" where
  "FCFS_DETECTORS =
     [TierBoundaryEdgeCaseDetector, GhostStakerDetector, CascadingTierUpdateDoSDetector,
      PositionGamingDetector, FenwickTreeConsistencyDetector]"

definition ALL_DETECTORS :: "detector list" where
  "ALL_DETECTORS =
     MEV_DETECTORS @ L2_DETECTORS @ EMERGING_DETECTORS @ ADMIN_DETECTORS @ CRYPTO_DETECTORS
     @ FCFS_DETECTORS"

text \<open>
  \<open>detect iter dep d cu\<close> is the \<open>_detect\<close> method of the detector class \<open>d\<close> on the
  compilation unit \<open>cu\<close>: the list \<open>results\<close> it returns, or the exception that leaves it.
\<close>

fun detect ::
  "set_iter \<Rightarrow> dependency \<Rightarrow> detector \<Rightarrow> compilation_unit \<Rightarrow> py_error + finding list" where
  "detect iter dep MissingSlippageProtection cu = Inr (missing_slippage_detect iter dep cu)"
| "detect iter dep ExcessiveSlippageTolerance cu = excessive_slippage_detect cu"
| "detect iter dep MissingDeadlineCheck cu = Inr (missing_deadline_detect cu)"
| "detect iter dep FlashLoanEnabler cu = Inr (flash_loan_detect cu)"
| "detect iter dep OracleManipulationRisk cu = Inr (oracle_manipulation_detect iter cu)"
| "detect iter dep SequencerDependency cu = Inr (sequencer_dependency_detect iter cu)"
| "detect iter dep L1L2MessageRisk cu = Inr (message_risk_detect iter cu)"
| "detect iter dep AddressAliasingRisk cu = Inr (address_aliasing_detect cu)"
| "detect iter dep L2GasCalculationRisk cu = gas_calculation_detect cu"
| "detect iter dep ReorgRisk cu = Inr (reorg_risk_detect cu)"
| "detect iter dep RestakingSlashingRisk cu = Inr (slashing_risk_detect iter cu)"
| "detect iter dep RestakingDelegationRisk cu = Inr (delegation_risk_detect iter cu)"
| "detect iter dep IntentReplayRisk cu = Inr (intent_replay_detect iter cu)"
| "detect iter dep SolverCollusionRisk cu = Inr (solver_collusion_detect cu)"
| "detect iter dep PointsSybilRisk cu = Inr (points_sybil_detect iter cu)"
| "detect iter dep MerkleProofRisk cu = Inr (merkle_proof_detect cu)"
| "detect iter dep ProxyUpgradeNoTimelock cu = Inr (upgrade_no_timelock_detect iter cu)"
| "detect iter dep SharedDeployerRisk cu = Inr (shared_deployer_detect cu)"
| "detect iter dep L2BridgeExitRisk cu = Inr (bridge_exit_detect iter cu)"
| "detect iter dep EmergencyWithdrawRisk cu = Inr (emergency_withdraw_detect iter cu)"
| "detect iter dep MultiSigBypassRisk cu = Inr (multisig_bypass_detect cu)"
| "detect iter dep BN254ZeroPointDetector cu = Inr (zero_point_detect cu)"
| "detect iter dep RogueKeyAttackDetector cu = Inr (rogue_key_detect cu)"
| "detect iter dep SignatureMalleabilityDetector cu = Inr (sig_malleability_detect cu)"
| "detect iter dep ZKProofVerificationGapDetector cu = Inr (zk_gap_detect cu)"
| "detect iter dep PrecompileGasExhaustionDetector cu = Inr (precompile_gas_detect cu)"
| "detect iter dep TierBoundaryEdgeCaseDetector cu = Inr (tier_boundary_detect cu)"
| "detect iter dep GhostStakerDetector cu = Inr (ghost_staker_detect cu)"
| "detect iter dep CascadingTierUpdateDoSDetector cu = Inr (cascade_dos_detect cu)"
| "detect iter dep PositionGamingDetector cu = Inr (position_gaming_detect cu)"
| "detect iter dep FenwickTreeConsistencyDetector cu = Inr (fenwick_detect cu)"

text \<open>Another order in which a process may visit a set: the reverse of the sorted one.\<close>

definition reverse_sorted :: set_iter where
  "reverse_sorted S = rev (sorted_list_of_set S)"

section \<open>The runner\<close>

text \<open>
  The source files hold the detector classes only: no code in them iterates rules over
  entities, catches an exception of a rule or records a rule-execution error (the host
  framework runs the detectors). The Engine/Runner of the specification and the rule
  interface it drives are therefore modelled from the specification's sections 4.3 and
  4.4, in its words.
\<close>

















section \<open>Concrete inputs\<close>

text \<open>
  A direct reading of the host's dependency analysis, enough for the inputs below: an
  operand depends on a parameter when it is that parameter; a constant depends on none.
\<close>

definition direct_dependency :: dependency where
  "direct_dependency arg param function = (arg = Variable (p_name param))"

text \<open>
  The exploit scenario of \<open>MissingSlippageProtection.WIKI_EXPLOIT_SCENARIO\<close>:
  \<^verbatim>\<open>function swap(address tokenIn, address tokenOut, uint256 amountIn) external {
    router.swapExactTokensForTokens(amountIn, 0, path, msg.sender, block.timestamp); }\<close>
\<close>

definition wiki_swap_arguments :: "operand list" where
  "wiki_swap_arguments =
     [Variable ''amountIn'', Constant (PInt 0), Variable ''path'', Variable ''msg.sender'',
      Variable ''block.timestamp'']"

definition wiki_swap_node :: node where
  "wiki_swap_node =
     \<lparr>n_type = EXPRESSION,
      n_str = ''EXPRESSION router.swapExactTokensForTokens(amountIn,0,path,msg.sender,block.timestamp)'',
      n_expression =
        Some ''router.swapExactTokensForTokens(amountIn,0,path,msg.sender,block.timestamp)'',
      n_contains_require_or_assert = False,
      n_irs = [HighLevelCall (Some ''swapExactTokensForTokens'') (DestVariable ''router'')
                 wiki_swap_arguments],
      n_node_id = 1\<rparr>"

definition wiki_swap_function :: function_decl where
  "wiki_swap_function =
     \<lparr>f_name = ''swap'',
      f_canonical_name = ''Vault.swap(address,address,uint256)'',
      f_visibility = External,
      f_is_constructor = False,
      f_parameters = [\<lparr>p_name = ''tokenIn'', p_type = ''address''\<rparr>,
                      \<lparr>p_name = ''tokenOut'', p_type = ''address''\<rparr>,
                      \<lparr>p_name = ''amountIn'', p_type = ''uint256''\<rparr>],
      f_modifiers = [],
      f_nodes = [wiki_swap_node],
      f_state_variables_written = [],
      f_internal_calls = []\<rparr>"

definition vault_contract :: "function_decl list \<Rightarrow> state_variable list \<Rightarrow> contract" where
  "vault_contract functions variables =
     \<lparr>c_name = ''Vault'', c_functions = functions, c_state_variables = variables,
      c_constructor = None\<rparr>"

definition unit_of :: "contract list \<Rightarrow> compilation_unit" where
  "unit_of cs = \<lparr>contracts = cs, contracts_derived = cs\<rparr>"


text \<open>
  A function without parameters whose body is
  \<^verbatim>\<open>router.swapExactTokensForTokens(1000, 0, path, address(this), deadline)\<close>.
\<close>

definition fixed_swap_node :: node where
  "fixed_swap_node =
     \<lparr>n_type = EXPRESSION,
      n_str = ''EXPRESSION router.swapExactTokensForTokens(1000,0,path,address(this),deadline)'',
      n_expression =
        Some ''router.swapExactTokensForTokens(1000,0,path,address(this),deadline)'',
      n_contains_require_or_assert = False,
      n_irs = [HighLevelCall (Some ''swapExactTokensForTokens'') (DestVariable ''router'')
                 [Constant (PInt 1000), Constant (PInt 0), Variable ''path'',
                  Variable ''TMP_0'', Variable ''deadline'']],
      n_node_id = 1\<rparr>"

definition fixed_swap_function :: "visibility \<Rightarrow> function_decl" where
  "fixed_swap_function vis =
     \<lparr>f_name = ''rebalance'',
      f_canonical_name = ''Vault.rebalance()'',
      f_visibility = vis,
      f_is_constructor = False,
      f_parameters = [],
      f_modifiers = [],
      f_nodes = [fixed_swap_node],
      f_state_variables_written = [],
      f_internal_calls = []\<rparr>"

definition plain_node :: "node_type \<Rightarrow> string \<Rightarrow> node" where
  "plain_node t text =
     \<lparr>n_type = t, n_str = text, n_expression = None, n_contains_require_or_assert = False,
      n_irs = [], n_node_id = 0\<rparr>"

definition plain_function :: "string \<Rightarrow> node list \<Rightarrow> function_decl" where
  "plain_function name nodes =
     \<lparr>f_name = name,
      f_canonical_name = ''Vault.'' @ name @ ''()'',
      f_visibility = External,
      f_is_constructor = False,
      f_parameters = [],
      f_modifiers = [],
      f_nodes = nodes,
      f_state_variables_written = [],
      f_internal_calls = []\<rparr>"

text \<open>
  \<^verbatim>\<open>function stake(uint256 amount) external { stakedAmount[msg.sender] += amount; }\<close>
  and the node of \<^verbatim>\<open>require(amount > 0)\<close>.
\<close>

definition stake_body_node :: node where
  "stake_body_node = plain_node EXPRESSION ''EXPRESSION stakedAmount[msg.sender] += amount''"

definition require_positive_node :: node where
  "require_positive_node = plain_node EXPRESSION ''EXPRESSION require(bool)(amount > 0)''"

definition require_value_node :: node where
  "require_value_node = plain_node EXPRESSION ''EXPRESSION require(bool)(msg.value > 0)''"

text \<open>
  A node whose text holds a low-level call with a gas option of 4301 digits, as the text
  of a statement that carries such a call inside a string literal does.
\<close>

definition digit_run :: "nat \<Rightarrow> string" where
  "digit_run n = replicate n (CHR ''1'')"

definition over_limit_gas_node :: node where
  "over_limit_gas_node =
     plain_node EXPRESSION
       (''EXPRESSION log(target.call{gas: '' @ digit_run 4301 @ ''}(data))'')"



text \<open>
  \<^verbatim>\<open>function stake() external { for (i = 0; i < users.length; i++) { total += 1; }
                                  updateRanking(msg.sender); }\<close>
  The call of \<open>updateRanking\<close> stands after the end of the loop.
\<close>

definition update_after_loop_nodes :: "node list" where
  "update_after_loop_nodes =
     [plain_node ENTRYPOINT ''ENTRY_POINT'',
      plain_node VARIABLE ''NEW VARIABLE i = 0'',
      plain_node STARTLOOP ''BEGIN_LOOP'',
      plain_node IFLOOP ''IF_LOOP i < users.length'',
      plain_node EXPRESSION ''EXPRESSION total += 1'',
      plain_node EXPRESSION ''EXPRESSION i ++'',
      plain_node ENDLOOP ''END_LOOP'',
      plain_node EXPRESSION ''EXPRESSION updateRanking(msg.sender)'']"

text \<open>
  A contract \<open>ProxyAdmin\<close> with one function \<open>upgradeTo\<close>; the body is either the plain
  assignment or starts with \<^verbatim>\<open>require(block.timestamp >= readyAt)\<close>.
\<close>

definition proxy_admin_contract :: "function_decl list \<Rightarrow> state_variable list \<Rightarrow> contract" where
  "proxy_admin_contract functions variables =
     \<lparr>c_name = ''ProxyAdmin'', c_functions = functions, c_state_variables = variables,
      c_constructor = None\<rparr>"

definition assign_implementation_node :: node where
  "assign_implementation_node =
     plain_node EXPRESSION ''EXPRESSION implementation = newImplementation''"

definition ready_check_node :: node where
  "ready_check_node =
     plain_node EXPRESSION ''EXPRESSION require(bool)(block.timestamp >= readyAt)''"

definition plain_variable :: "string \<Rightarrow> state_variable" where
  "plain_variable name =
     \<lparr>v_name = name, v_canonical_name = ''ProxyAdmin.'' @ name, v_type = ''uint256'',
      v_expression = None\<rparr>"


section \<open>Facts about the string and iteration primitives\<close>

lemma lower_char_ascii:
  "lower_char c =
     (case map_of (zip ''ABCDEFGHIJKLMNOPQRSTUVWXYZ'' ''abcdefghijklmnopqrstuvwxyz'') c of
        None \<Rightarrow> c
      | Some d \<Rightarrow> d)"
proof (cases c)
  case (Char b0 b1 b2 b3 b4 b5 b6 b7)
  show ?thesis
    unfolding Char lower_char_def
    by (cases b0; cases b1; cases b2; cases b3; cases b4; cases b5; cases b6; cases b7) simp_all
qed

lemmas string_eval = lower_def lower_char_def strip_underscores_def any_in_def

lemma py_any_iff: "py_any P xs = (\<exists>x \<in> set xs. P x)"
  by (induction xs) auto

lemma iter_set: "set_iteration iter \<Longrightarrow> finite S \<Longrightarrow> set (iter S) = S"
  by (simp add: set_iteration_def)

lemma sorted_iteration: "set_iteration sorted_list_of_set"
  by (simp add: set_iteration_def)

section \<open>Numeric extraction\<close>

lemma match_gas_here_digits:
  "match_gas_here s = Some g \<Longrightarrow> g \<noteq> [] \<and> (\<forall>c \<in> set g. is_digit c)"
  by (auto simp: match_gas_here_def Let_def split: if_splits dest: set_takeWhileD)

lemma re_search_gas_digits:
  "re_search_gas s = Some g \<Longrightarrow> g \<noteq> [] \<and> (\<forall>c \<in> set g. is_digit c)"
proof (induction s)
  case Nil
  then show ?case using match_gas_here_digits by simp
next
  case (Cons c cs)
  then show ?case
    by (cases "match_gas_here (c # cs)") (use match_gas_here_digits in auto)
qed

lemma digits_value_total:
  "\<forall>c \<in> set g. is_digit c \<Longrightarrow> \<exists>n. digits_value acc g = Some n"
  by (induction g arbitrary: acc) (auto simp: is_digit_def)

lemma int_of_digits_within_limit:
  "g \<noteq> [] \<Longrightarrow> \<forall>c \<in> set g. is_digit c \<Longrightarrow> length g \<le> MAX_STR_DIGITS
   \<Longrightarrow> \<exists>i. int_of_digits g = Inr i"
  using digits_value_total [of g 0] by (auto simp: int_of_digits_def)

lemma int_of_digits_over_limit:
  "MAX_STR_DIGITS < length g \<Longrightarrow> int_of_digits g = Inl ValueError"
  by (simp add: int_of_digits_def split: option.split)

text \<open>
  On ASCII text the conversion of the matched digits raises exactly when the match is
  longer than the digit limit: on every other text the extraction returns an integer or
  nothing.
\<close>

lemma extract_gas_value_raises_iff:
  assumes "isascii content"
  shows "extract_gas_value content = Inl e \<longleftrightarrow>
     e = ValueError \<and> (\<exists>g. re_search_gas content = Some g \<and> MAX_STR_DIGITS < length g)"
proof (cases "re_search_gas content")
  case None
  then show ?thesis by (simp add: extract_gas_value_def)
next
  case (Some g)
  show ?thesis
  proof (cases "MAX_STR_DIGITS < length g")
    case True
    with Some show ?thesis
      by (auto simp: extract_gas_value_def int_of_digits_over_limit)
  next
    case False
    then obtain i where "int_of_digits g = Inr i"
      using re_search_gas_digits [OF Some] int_of_digits_within_limit [of g] by auto
    with Some False show ?thesis by (simp add: extract_gas_value_def)
  qed
qed

lemma extract_gas_value_within_limit:
  assumes "isascii content"
    and "\<forall>g. re_search_gas content = Some g \<longrightarrow> length g \<le> MAX_STR_DIGITS"
  shows "\<exists>r. extract_gas_value content = Inr r"
proof (cases "extract_gas_value content")
  case (Inl e)
  then show ?thesis using assms extract_gas_value_raises_iff [of content e] by auto
next
  case (Inr r)
  then show ?thesis by simp
qed

lemmas gas_eval = extract_gas_value_def match_gas_here_def is_space_def is_digit_def
  digit_value_def int_of_digits_def MAX_STR_DIGITS_def

text \<open>A run of the digit \<open>1\<close> inside a text: how the scan passes over it and captures it.\<close>

lemma digit_run_length: "length (digit_run n) = n"
  by (simp add: digit_run_def)

lemma digit_run_not_empty: "0 < n \<Longrightarrow> digit_run n \<noteq> []"
  by (simp add: digit_run_def)

lemma one_is_digit: "is_digit (CHR ''1'')"
  by (simp add: is_digit_def digit_value_def)

lemma digit_run_captured:
  "\<not> is_digit c \<Longrightarrow> takeWhile is_digit (digit_run n @ c # cs) = digit_run n"
  by (induction n) (simp_all add: digit_run_def one_is_digit)

lemma digit_run_no_space:
  "0 < n \<Longrightarrow> dropWhile is_space (digit_run n @ cs) = digit_run n @ cs"
  by (cases n) (simp_all add: digit_run_def is_space_def)

lemma digit_run_no_match:
  "0 < n \<Longrightarrow> match_gas_here (digit_run n @ cs) = None"
  by (cases n) (simp_all add: digit_run_def match_gas_here_def)

lemma over_limit_match:
  "re_search_gas (n_str over_limit_gas_node) = Some (digit_run 4301)"
  by (simp add: over_limit_gas_node_def plain_node_def match_gas_here_def is_space_def
        is_digit_def digit_value_def digit_run_captured digit_run_no_space
        digit_run_not_empty)

lemma over_limit_raises: "extract_gas_value (n_str over_limit_gas_node) = Inl ValueError"
  by (simp add: extract_gas_value_def over_limit_match int_of_digits_over_limit
        digit_run_length MAX_STR_DIGITS_def)

lemma over_limit_is_gas_call: "str_in ''.call{gas:'' (n_str over_limit_gas_node)"
  "str_in ''gas:'' (n_str over_limit_gas_node)"
  by (simp_all add: over_limit_gas_node_def plain_node_def)

lemma over_limit_node_raises: "gas_usage_node over_limit_gas_node = Inl ValueError"
  unfolding gas_usage_node_def Let_def
  by (simp add: over_limit_is_gas_call over_limit_raises)

text \<open>
  C4. The scan for a number after \<open>gas:\<close> yields 21000 on \<open>swap{gas: 21000}\<close> and no value
  on \<open>swap()\<close>. It does raise on some texts: on the text of a node that holds
  \<open>.call{gas: \<close> followed by 4301 digits the pattern matches, the unguarded \<open>int\<close> of the
  match raises \<open>ValueError\<close>, and the exception leaves \<open>_check_gas_usage\<close> and the rule's
  \<open>_detect\<close> for the whole model.
\<close>

theorem gas_extraction_raises_over_digit_limit:
  "extract_gas_value ''swap{gas: 21000}'' = Inr (Some 21000)
   \<and> extract_gas_value ''swap()'' = Inr None
   \<and> extract_gas_value (n_str over_limit_gas_node) = Inl ValueError
   \<and> check_gas_usage (plain_function ''forward'' [over_limit_gas_node]) = Inl ValueError
   \<and> gas_calculation_detect
       (unit_of [vault_contract [plain_function ''forward'' [over_limit_gas_node]] []])
     = Inl ValueError"
proof (intro conjI)
  show "extract_gas_value ''swap{gas: 21000}'' = Inr (Some 21000)"
    by (simp add: gas_eval)
  show "extract_gas_value ''swap()'' = Inr None"
    by (simp add: gas_eval)
  show "extract_gas_value (n_str over_limit_gas_node) = Inl ValueError"
    by (rule over_limit_raises)
  show a: "check_gas_usage (plain_function ''forward'' [over_limit_gas_node]) = Inl ValueError"
    by (simp add: check_gas_usage_def plain_function_def over_limit_node_raises)
  show "gas_calculation_detect
       (unit_of [vault_contract [plain_function ''forward'' [over_limit_gas_node]] []])
     = Inl ValueError"
    by (simp add: gas_calculation_detect_def unit_of_def vault_contract_def a)
qed

section \<open>Excessive slippage tolerance\<close>




lemma threshold_within_limit: "500 < i \<Longrightarrow> (10 ^ MAX_STR_DIGITS \<le> \<bar>i\<bar>) = (10 ^ MAX_STR_DIGITS \<le> i)"
  for i :: int
  by simp


















section \<open>Missing slippage protection\<close>

lemma missing_slippage_hidden:
  "f_is_constructor f \<or> f_visibility f = Private \<or> f_visibility f = Internal
   \<Longrightarrow> missing_slippage_function iter dep f = []"
  by (auto simp: missing_slippage_function_def)

text \<open>
  C9. A constructor and a private or internal function get no finding from the
  missing-slippage rule, whatever their body: the loop body returns nothing for such a
  function, and the rule's result on a model is the same with the function removed.
\<close>

theorem missing_slippage_skips_hidden:
  assumes "f_is_constructor f \<or> f_visibility f = Private \<or> f_visibility f = Internal"
  shows "missing_slippage_function iter dep f = []
     \<and> missing_slippage_detect iter dep
          (cu\<lparr>contracts_derived := cs1 @ [c\<lparr>c_functions := fs1 @ [f] @ fs2\<rparr>] @ cs2\<rparr>)
       = missing_slippage_detect iter dep
          (cu\<lparr>contracts_derived := cs1 @ [c\<lparr>c_functions := fs1 @ fs2\<rparr>] @ cs2\<rparr>)"
  using missing_slippage_hidden [OF assms]
  by (simp add: missing_slippage_detect_def)

lemma finite_DEX_SWAP_FUNCTIONS: "finite DEX_SWAP_FUNCTIONS"
  by (simp add: DEX_SWAP_FUNCTIONS_def)

lemma dex_swap_member:
  "set_iteration iter \<Longrightarrow>
     (x \<in> set (map lower (iter DEX_SWAP_FUNCTIONS))) = (x \<in> lower ` DEX_SWAP_FUNCTIONS)"
  by (simp add: iter_set finite_DEX_SWAP_FUNCTIONS)

lemma swapExactTokensForTokens_listed:
  "lower ''swapExactTokensForTokens'' \<in> lower ` DEX_SWAP_FUNCTIONS"
  by (simp add: DEX_SWAP_FUNCTIONS_def)

lemma fixed_swap_reported:
  assumes "set_iteration iter"
  shows "missing_slippage_function iter dep (fixed_swap_function External) =
     [generate_result ''mev-missing-slippage''
        [Txt ''MEV Risk: Vault.rebalance() '',
         Txt ''calls swapExactTokensForTokens without slippage protection'',
         Txt [CHR 0x0A, CHR 0x09, CHR ''-'', CHR '' ''], Nd fixed_swap_node, Txt [CHR 0x0A]]]"
proof -
  have "\<not> has_slippage_protection dep
           [Constant (PInt 1000), Constant (PInt 0), Variable ''path'', Variable ''TMP_0'',
            Variable ''deadline'']
           (fixed_swap_function External)"
    by (simp add: has_slippage_protection_def fixed_swap_function_def str_int_def
          str_nat.simps digit_char_def)
  then have "check_function_slippage iter dep (fixed_swap_function External) =
      [(fixed_swap_node, ''calls swapExactTokensForTokens without slippage protection'')]"
    using dex_swap_member [OF assms] swapExactTokensForTokens_listed
    by (simp add: check_function_slippage_def fixed_swap_function_def fixed_swap_node_def)
  then show ?thesis
    by (simp add: missing_slippage_function_def fixed_swap_function_def)
qed

theorem missing_slippage_skips_hidden_witness:
  "f_visibility (fixed_swap_function Internal) = Internal
   \<and> missing_slippage_function sorted_list_of_set direct_dependency
        (fixed_swap_function Internal) = []
   \<and> missing_slippage_function sorted_list_of_set direct_dependency
        (fixed_swap_function External) \<noteq> []
   \<and> missing_slippage_detect sorted_list_of_set direct_dependency
        ((unit_of [])\<lparr>contracts_derived :=
           [vault_contract [fixed_swap_function Internal, fixed_swap_function External] []]\<rparr>)
     = missing_slippage_detect sorted_list_of_set direct_dependency
        ((unit_of [])\<lparr>contracts_derived :=
           [vault_contract [fixed_swap_function External] []]\<rparr>)"
proof -
  have vis: "f_visibility (fixed_swap_function Internal) = Internal"
    by (simp add: fixed_swap_function_def)
  then have hidden: "f_is_constructor (fixed_swap_function Internal)
      \<or> f_visibility (fixed_swap_function Internal) = Private
      \<or> f_visibility (fixed_swap_function Internal) = Internal"
    by simp
  show ?thesis
    using vis fixed_swap_reported [OF sorted_iteration, of direct_dependency]
      missing_slippage_skips_hidden [OF hidden, where iter = sorted_list_of_set
        and dep = direct_dependency and cu = "unit_of []" and ?cs1.0 = "[]"
        and c = "vault_contract [] []" and ?fs1.0 = "[]"
        and ?fs2.0 = "[fixed_swap_function External]" and ?cs2.0 = "[]"]
    by (simp add: unit_of_def vault_contract_def)
qed

text \<open>
  What the loop over the arguments decides: the first argument that is a literal \<open>0\<close> or
  depends on a parameter settles the answer, whatever follows it.
\<close>

lemma slippage_arguments_literal_first:
  assumes "\<forall>a \<in> set pre. (\<forall>v. operand_value a = Some v \<longrightarrow> py_str v \<noteq> ''0'')
                         \<and> \<not> py_any (\<lambda>param. dep a param f) (f_parameters f)"
    and "py_str v = ''0''"
  shows "\<not> slippage_arguments dep f (pre @ Constant v # post)"
  using assms by (induction pre) (auto split: option.splits)

lemma slippage_arguments_dependent_first:
  assumes "\<forall>a \<in> set pre. (\<forall>v. operand_value a = Some v \<longrightarrow> py_str v \<noteq> ''0'')
                         \<and> \<not> py_any (\<lambda>param. dep a param f) (f_parameters f)"
    and "\<forall>v. operand_value a = Some v \<longrightarrow> py_str v \<noteq> ''0''"
    and "py_any (\<lambda>param. dep a param f) (f_parameters f)"
  shows "slippage_arguments dep f (pre @ a # post)"
  using assms by (induction pre) (auto split: option.splits)

lemma wiki_swap_protected:
  "has_slippage_protection direct_dependency wiki_swap_arguments wiki_swap_function"
  by (simp add: has_slippage_protection_def wiki_swap_function_def wiki_swap_arguments_def
        direct_dependency_def)

lemma wiki_swap_no_issue: "check_function_slippage iter direct_dependency wiki_swap_function = []"
proof -
  have "f_nodes wiki_swap_function = [wiki_swap_node]"
    by (simp add: wiki_swap_function_def)
  then show ?thesis
    by (simp add: check_function_slippage_def wiki_swap_node_def wiki_swap_protected Let_def)
qed

section \<open>Ghost staker\<close>

lemma enforces_minimum_nodes_iff:
  "enforces_minimum_nodes nodes = (\<exists>n \<in> set nodes. enforces_minimum_nodes [n])"
  by (induction nodes) (auto simp: Let_def)

lemma ghost_staker_finding_inj:
  "(ghost_staker_finding f = ghost_staker_finding g) = (f = g)"
  by (auto simp: ghost_staker_finding_def generate_result_def)

lemma ghost_staker_function_set:
  "set (ghost_staker_function g) =
     (if any_in [''stake'', ''deposit'', ''join'', ''register''] (lower (f_name g))
         \<and> \<not> enforces_minimum g
      then {ghost_staker_finding g} else {})"
  by (simp add: ghost_staker_function_def Let_def)

lemma ghost_staker_detect_member:
  "ghost_staker_finding f \<in> set (ghost_staker_detect cu) \<longleftrightarrow>
     (\<exists>c \<in> set (contracts_derived cu). f \<in> set (c_functions c))
     \<and> any_in [''stake'', ''deposit'', ''join'', ''register''] (lower (f_name f))
     \<and> \<not> enforces_minimum f"
  by (auto simp: ghost_staker_detect_def ghost_staker_function_set ghost_staker_finding_inj
           split: if_splits)

text \<open>
  C2. For a function whose lower-cased name contains \<open>stake\<close>, \<open>deposit\<close>, \<open>join\<close> or
  \<open>register\<close>: if no node of its body matches the minimum-enforcement patterns of
  \<open>_enforces_minimum\<close>, the ghost-staker rule reports the function in every model that
  holds it; and once a node that matches these patterns stands anywhere in the body, no
  model gets a finding for the function.
\<close>

theorem ghost_staker_rule:
  assumes "any_in [''stake'', ''deposit'', ''join'', ''register''] (lower (f_name f))"
  shows "((\<forall>n \<in> set (f_nodes f). \<not> enforces_minimum_nodes [n])
           \<and> c \<in> set (contracts_derived cu) \<and> f \<in> set (c_functions c)
          \<longrightarrow> ghost_staker_finding f \<in> set (ghost_staker_detect cu))
     \<and> (enforces_minimum_nodes [n]
          \<longrightarrow> ghost_staker_function (f\<lparr>f_nodes := ns1 @ [n] @ ns2\<rparr>) = []
              \<and> (\<forall>cu'. ghost_staker_finding (f\<lparr>f_nodes := ns1 @ [n] @ ns2\<rparr>)
                         \<notin> set (ghost_staker_detect cu')))"
proof (intro conjI impI)
  assume "(\<forall>n \<in> set (f_nodes f). \<not> enforces_minimum_nodes [n])
           \<and> c \<in> set (contracts_derived cu) \<and> f \<in> set (c_functions c)"
  then have "\<not> enforces_minimum f" and "\<exists>c \<in> set (contracts_derived cu). f \<in> set (c_functions c)"
    using enforces_minimum_nodes_iff [of "f_nodes f"] by (auto simp: enforces_minimum_def)
  with assms show "ghost_staker_finding f \<in> set (ghost_staker_detect cu)"
    by (simp add: ghost_staker_detect_member)
next
  assume "enforces_minimum_nodes [n]"
  then have e: "enforces_minimum (f\<lparr>f_nodes := ns1 @ [n] @ ns2\<rparr>)"
    using enforces_minimum_nodes_iff [of "ns1 @ [n] @ ns2"] by (auto simp: enforces_minimum_def)
  then show "ghost_staker_function (f\<lparr>f_nodes := ns1 @ [n] @ ns2\<rparr>) = []"
    by (simp add: ghost_staker_function_def Let_def)
  from e show "\<forall>cu'. ghost_staker_finding (f\<lparr>f_nodes := ns1 @ [n] @ ns2\<rparr>)
                         \<notin> set (ghost_staker_detect cu')"
    by (simp add: ghost_staker_detect_member)
qed

lemma stake_name: "any_in [''stake'', ''deposit'', ''join'', ''register''] (lower ''stake'')"
  by (simp add: string_eval)

lemma stake_body_plain: "\<not> enforces_minimum_nodes [stake_body_node]"
  by (simp add: stake_body_node_def plain_node_def string_eval)

lemma require_positive_enforces: "enforces_minimum_nodes [require_positive_node]"
  by (simp add: require_positive_node_def plain_node_def string_eval)

text \<open>
  The patterns are literal texts: a \<open>require\<close> on another operand, such as
  \<^verbatim>\<open>require(msg.value > 0)\<close>, is no match.
\<close>

lemma require_value_no_match: "\<not> enforces_minimum_nodes [require_value_node]"
  by (simp add: require_value_node_def plain_node_def string_eval)

theorem ghost_staker_rule_witness:
  "ghost_staker_finding (plain_function ''stake'' [stake_body_node])
     \<in> set (ghost_staker_detect
              (unit_of [vault_contract [plain_function ''stake'' [stake_body_node]] []]))
   \<and> ghost_staker_function
        (plain_function ''stake'' [require_positive_node, stake_body_node]) = []
   \<and> ghost_staker_finding (plain_function ''stake'' [require_positive_node, stake_body_node])
     \<notin> set (ghost_staker_detect
              (unit_of [vault_contract
                 [plain_function ''stake'' [require_positive_node, stake_body_node]] []]))"
proof -
  let ?f = "plain_function ''stake'' [stake_body_node]"
  let ?c = "vault_contract [?f] []"
  have name: "any_in [''stake'', ''deposit'', ''join'', ''register''] (lower (f_name ?f))"
    using stake_name by (simp add: plain_function_def)
  have body: "\<forall>n \<in> set (f_nodes ?f). \<not> enforces_minimum_nodes [n]"
    using stake_body_plain by (simp add: plain_function_def)
  have held: "?c \<in> set (contracts_derived (unit_of [?c]))" "?f \<in> set (c_functions ?c)"
    by (simp_all add: unit_of_def vault_contract_def)
  have added: "?f\<lparr>f_nodes := [] @ [require_positive_node] @ [stake_body_node]\<rparr>
      = plain_function ''stake'' [require_positive_node, stake_body_node]"
    by (simp add: plain_function_def)
  show ?thesis
    using ghost_staker_rule [OF name, of ?c "unit_of [?c]" require_positive_node "[]"
        "[stake_body_node]"]
      body held require_positive_enforces
    unfolding added by blast
qed

section \<open>Cascading tier updates\<close>

text \<open>
  What the scan of \<open>_has_cascading_loop\<close> computes: some node matches the update patterns
  and a loop node stands at or before it; \<open>loop_count\<close> never goes down again.
\<close>

lemma cascading_loop_scan_iff:
  "cascading_loop_scan k h nodes \<longleftrightarrow>
     h \<or> (\<exists>i < length nodes.
            any_in [''update'', ''recalculate'', ''tier'', ''rank''] (lower (n_str (nodes ! i)))
            \<and> (k > 0 \<or> (\<exists>j \<le> i. n_type (nodes ! j) \<in> {STARTLOOP, IFLOOP})))"
proof (induction nodes arbitrary: k h)
  case Nil
  show ?case by simp
next
  case (Cons node nodes)
  let ?P = "\<lambda>n. any_in [''update'', ''recalculate'', ''tier'', ''rank''] (lower (n_str n))"
  let ?L = "\<lambda>n. n_type n \<in> {STARTLOOP, IFLOOP}"
  have split_ex: "(\<exists>i < length (node # nodes). ?P ((node # nodes) ! i)
            \<and> (k > 0 \<or> (\<exists>j \<le> i. ?L ((node # nodes) ! j))))
        \<longleftrightarrow> (?P node \<and> (k > 0 \<or> ?L node))
            \<or> (\<exists>i < length nodes. ?P (nodes ! i)
                  \<and> (k > 0 \<or> ?L node \<or> (\<exists>j \<le> i. ?L (nodes ! j))))"
    (is "?lhs \<longleftrightarrow> ?a \<or> ?b")
  proof
    assume ?lhs
    then obtain i where i: "i < length (node # nodes)" "?P ((node # nodes) ! i)"
      "k > 0 \<or> (\<exists>j \<le> i. ?L ((node # nodes) ! j))" by blast
    show "?a \<or> ?b"
    proof (cases i)
      case 0
      with i show ?thesis by auto
    next
      case (Suc i')
      from i(3) have "k > 0 \<or> ?L node \<or> (\<exists>j \<le> i'. ?L (nodes ! j))"
      proof
        assume "k > 0" then show ?thesis by simp
      next
        assume "\<exists>j \<le> i. ?L ((node # nodes) ! j)"
        then obtain j where j: "j \<le> i" "?L ((node # nodes) ! j)" by blast
        show ?thesis
        proof (cases j)
          case 0
          with j show ?thesis by simp
        next
          case (Suc j')
          with j \<open>i = Suc i'\<close> have "j' \<le> i'" "?L (nodes ! j')" by auto
          then show ?thesis by blast
        qed
      qed
      with i Suc show ?thesis by auto
    qed
  next
    assume "?a \<or> ?b"
    then show ?lhs
    proof
      assume ?a
      then have "0 < length (node # nodes) \<and> ?P ((node # nodes) ! 0)
          \<and> (k > 0 \<or> (\<exists>j \<le> 0. ?L ((node # nodes) ! j)))" by auto
      then show ?lhs by blast
    next
      assume ?b
      then obtain i where i: "i < length nodes" "?P (nodes ! i)"
        "k > 0 \<or> ?L node \<or> (\<exists>j \<le> i. ?L (nodes ! j))" by blast
      from i(3) have "k > 0 \<or> (\<exists>j \<le> Suc i. ?L ((node # nodes) ! j))"
      proof (elim disjE)
        assume "k > 0" then show ?thesis by simp
      next
        assume "?L node"
        then have "0 \<le> Suc i \<and> ?L ((node # nodes) ! 0)" by simp
        then show ?thesis by blast
      next
        assume "\<exists>j \<le> i. ?L (nodes ! j)"
        then obtain j where "j \<le> i" "?L (nodes ! j)" by blast
        then have "Suc j \<le> Suc i \<and> ?L ((node # nodes) ! Suc j)" by simp
        then show ?thesis by blast
      qed
      with i have "Suc i < length (node # nodes) \<and> ?P ((node # nodes) ! Suc i)
          \<and> (k > 0 \<or> (\<exists>j \<le> Suc i. ?L ((node # nodes) ! j)))" by simp
      then show ?lhs by blast
    qed
  qed
  show ?case
    unfolding split_ex
    by (cases "?L node"; cases "?P node"; cases "k > 0")
       (simp_all add: Cons.IH Let_def)
qed

lemma has_cascading_loop_iff:
  "has_cascading_loop f \<longleftrightarrow>
     (\<exists>i < length (f_nodes f).
        any_in [''update'', ''recalculate'', ''tier'', ''rank''] (lower (n_str (f_nodes f ! i)))
        \<and> (\<exists>j \<le> i. n_type (f_nodes f ! j) \<in> {STARTLOOP, IFLOOP}))"
  by (simp add: has_cascading_loop_def cascading_loop_scan_iff)

lemma stake_after_loop_scan:
  "has_cascading_loop (plain_function ''stake'' update_after_loop_nodes)"
  by (simp add: has_cascading_loop_def plain_function_def update_after_loop_nodes_def
        plain_node_def string_eval)

lemma stake_after_loop_reported:
  "length (cascade_dos_function (plain_function ''stake'' update_after_loop_nodes)) = 1"
proof -
  have "modifies_ranking (plain_function ''stake'' update_after_loop_nodes)"
    by (simp add: modifies_ranking_def plain_function_def string_eval)
  then show ?thesis
    using stake_after_loop_scan by (simp add: cascade_dos_function_def)
qed

text \<open>
  C5 on the code. In \<open>update_after_loop_nodes\<close> the loop runs from the third node to the
  seventh (\<open>END_LOOP\<close>), no node up to the end of the loop matches the update patterns, and
  the only match is the call after the loop. \<open>_has_cascading_loop\<close> answers True all the
  same, and the rule reports the function.
\<close>

theorem cascading_loop_counts_after_loop_end:
  "n_type (update_after_loop_nodes ! 2) = STARTLOOP
   \<and> n_type (update_after_loop_nodes ! 6) = ENDLOOP
   \<and> \<not> py_any (\<lambda>node. any_in [''update'', ''recalculate'', ''tier'', ''rank'']
                              (lower (n_str node)))
           (take 7 update_after_loop_nodes)
   \<and> has_cascading_loop (plain_function ''stake'' update_after_loop_nodes)
   \<and> length (cascade_dos_detect
        (unit_of [vault_contract [plain_function ''stake'' update_after_loop_nodes] []])) = 1"
proof -
  have inside: "\<not> py_any (\<lambda>node. any_in [''update'', ''recalculate'', ''tier'', ''rank'']
                              (lower (n_str node)))
           (take 7 update_after_loop_nodes)"
    by (simp add: update_after_loop_nodes_def plain_node_def string_eval)
  have ends: "n_type (update_after_loop_nodes ! 2) = STARTLOOP"
    "n_type (update_after_loop_nodes ! 6) = ENDLOOP"
    by (simp_all add: update_after_loop_nodes_def plain_node_def)
  have "length (cascade_dos_detect
        (unit_of [vault_contract [plain_function ''stake'' update_after_loop_nodes] []])) = 1"
    using stake_after_loop_reported
    by (simp add: cascade_dos_detect_def unit_of_def vault_contract_def)
  with inside ends stake_after_loop_scan show ?thesis
    by (intro conjI)
qed

section \<open>Missing slippage protection on the documented exploit scenario\<close>

lemma wiki_swap_unprotected_by_name:
  "\<not> py_any (\<lambda>param. strip_underscores (lower (p_name param)) \<in> MIN_OUTPUT_PARAMS)
        (f_parameters wiki_swap_function)"
  by (simp add: wiki_swap_function_def MIN_OUTPUT_PARAMS_def string_eval)

text \<open>
  C1 on the code. The scenario of the detector's own \<open>WIKI_EXPLOIT_SCENARIO\<close> is an
  external function without a minimum-output parameter whose call of
  \<open>swapExactTokensForTokens\<close> passes the literal \<open>0\<close> as second argument. The first
  argument \<open>amountIn\<close> is a parameter, so the loop over the arguments answers True before
  it reaches the literal, and the rule reports nothing.
\<close>

theorem wiki_scenario_not_reported:
  "f_visibility wiki_swap_function = External
   \<and> \<not> f_is_constructor wiki_swap_function
   \<and> \<not> py_any (\<lambda>param. strip_underscores (lower (p_name param)) \<in> MIN_OUTPUT_PARAMS)
          (f_parameters wiki_swap_function)
   \<and> n_irs wiki_swap_node =
       [HighLevelCall (Some ''swapExactTokensForTokens'') (DestVariable ''router'')
          wiki_swap_arguments]
   \<and> lower ''swapExactTokensForTokens'' \<in> lower ` DEX_SWAP_FUNCTIONS
   \<and> wiki_swap_arguments ! 1 = Constant (PInt 0)
   \<and> missing_slippage_detect sorted_list_of_set direct_dependency
        (unit_of [vault_contract [wiki_swap_function] []]) = []"
proof -
  have "missing_slippage_detect sorted_list_of_set direct_dependency
        (unit_of [vault_contract [wiki_swap_function] []]) = []"
    by (simp add: missing_slippage_detect_def unit_of_def vault_contract_def
          missing_slippage_function_def wiki_swap_no_issue)
  moreover have "f_visibility wiki_swap_function = External"
    "\<not> f_is_constructor wiki_swap_function"
    by (simp_all add: wiki_swap_function_def)
  moreover have "n_irs wiki_swap_node =
       [HighLevelCall (Some ''swapExactTokensForTokens'') (DestVariable ''router'')
          wiki_swap_arguments]"
    by (simp add: wiki_swap_node_def)
  moreover have "wiki_swap_arguments ! 1 = Constant (PInt 0)"
    by (simp add: wiki_swap_arguments_def)
  ultimately show ?thesis
    using wiki_swap_unprotected_by_name swapExactTokensForTokens_listed by simp
qed

section \<open>Proxy upgrade without timelock\<close>

lemma any_in_iter:
  "set_iteration iter \<Longrightarrow> finite S \<Longrightarrow> any_in (iter S) s = (\<exists>p \<in> S. str_in p s)"
  by (simp add: any_in_def py_any_iff iter_set)

lemma finite_UPGRADE_PATTERNS: "finite UPGRADE_PATTERNS"
  by (simp add: UPGRADE_PATTERNS_def)

lemma finite_TIMELOCK_PATTERNS: "finite TIMELOCK_PATTERNS"
  by (simp add: TIMELOCK_PATTERNS_def)

lemma upgrade_delay_nodes_iff:
  "upgrade_delay_nodes iter nodes \<longleftrightarrow>
     (\<exists>n \<in> set nodes. any_in (iter TIMELOCK_PATTERNS) (lower (n_str n))
                       \<or> (str_in ''block.timestamp'' (lower (n_str n))
                           \<and> str_in ''>='' (lower (n_str n))))"
  by (induction nodes) (auto simp: Let_def)

lemma upgrade_finding_member:
  assumes "c \<in> set (contracts_derived cu)" "f \<in> set (c_functions c)"
    and "is_proxy_or_admin c" "is_upgrade_function iter f"
    and "\<not> contract_has_timelock iter c" "\<not> upgrade_function_has_delay iter f"
  shows "upgrade_finding f \<in> set (upgrade_no_timelock_detect iter cu)"
proof -
  have "upgrade_finding f \<in> set (upgrade_no_timelock_contract iter c)"
    using assms(2-6) by (auto simp: upgrade_no_timelock_contract_def Let_def)
  with assms(1) show ?thesis
    by (auto simp: upgrade_no_timelock_detect_def)
qed

lemma timelock_variable_suppresses:
  assumes "set_iteration iter" "v \<in> set (c_state_variables c)"
    and "\<exists>p \<in> TIMELOCK_PATTERNS. str_in p (lower (v_name v))"
  shows "upgrade_no_timelock_contract iter c = []"
proof -
  have "contract_has_timelock iter c"
    using assms by (auto simp: contract_has_timelock_def py_any_iff any_in_iter
                      finite_TIMELOCK_PATTERNS)
  then show ?thesis
    by (auto simp: upgrade_no_timelock_contract_def Let_def)
qed

lemma timelockDelay_matches: "\<exists>p \<in> TIMELOCK_PATTERNS. str_in p (lower ''timelockDelay'')"
  by (simp add: TIMELOCK_PATTERNS_def string_eval)

text \<open>
  C3 as amended. In a contract whose name matches a proxy/admin term, for a function
  whose normalised name contains an upgrade pattern: if no state variable's name contains
  a timelock pattern, no function is named after \<open>schedule\<close>, \<open>queue\<close> or \<open>execute\<close>, and no
  node of the function's body contains a timelock pattern or compares \<open>block.timestamp\<close>
  with \<open>>=\<close>, then the rule reports the function. A contract that has a state variable
  named \<open>timelockDelay\<close> gets no finding from the rule.
\<close>

theorem upgrade_without_timelock_reported:
  assumes "set_iteration iter"
    and "c \<in> set (contracts_derived cu)" and "f \<in> set (c_functions c)"
    and "is_proxy_or_admin c"
    and "\<exists>p \<in> UPGRADE_PATTERNS. str_in p (strip_underscores (lower (f_name f)))"
    and "\<forall>v \<in> set (c_state_variables c). \<forall>p \<in> TIMELOCK_PATTERNS. \<not> str_in p (lower (v_name v))"
    and "\<forall>g \<in> set (c_functions c).
           \<not> any_in [''schedule'', ''queue'', ''execute''] (lower (f_name g))"
    and "\<forall>n \<in> set (f_nodes f).
           (\<forall>p \<in> TIMELOCK_PATTERNS. \<not> str_in p (lower (n_str n)))
           \<and> \<not> (str_in ''block.timestamp'' (lower (n_str n)) \<and> str_in ''>='' (lower (n_str n)))"
  shows "upgrade_finding f \<in> set (upgrade_no_timelock_detect iter cu)
     \<and> upgrade_no_timelock_detect iter cu \<noteq> []
     \<and> upgrade_no_timelock_contract iter
          (c\<lparr>c_state_variables := vs1 @ [v\<lparr>v_name := ''timelockDelay''\<rparr>] @ vs2\<rparr>) = []"
proof -
  have up: "is_upgrade_function iter f"
    using assms(1,5) by (simp add: is_upgrade_function_def any_in_iter finite_UPGRADE_PATTERNS)
  have no_tl: "\<not> contract_has_timelock iter c"
    using assms(1,6,7)
    by (auto simp: contract_has_timelock_def py_any_iff any_in_iter finite_TIMELOCK_PATTERNS
            )
  have no_delay: "\<not> upgrade_function_has_delay iter f"
    using assms(1,8)
    by (auto simp: upgrade_function_has_delay_def upgrade_delay_nodes_iff any_in_iter
          finite_TIMELOCK_PATTERNS)
  have found: "upgrade_finding f \<in> set (upgrade_no_timelock_detect iter cu)"
    using upgrade_finding_member [OF assms(2,3,4) up no_tl no_delay] .
  then have "upgrade_no_timelock_detect iter cu \<noteq> []"
    by auto
  moreover have "upgrade_no_timelock_contract iter
          (c\<lparr>c_state_variables := vs1 @ [v\<lparr>v_name := ''timelockDelay''\<rparr>] @ vs2\<rparr>) = []"
    by (rule timelock_variable_suppresses [OF assms(1), of "v\<lparr>v_name := ''timelockDelay''\<rparr>"])
       (use timelockDelay_matches in simp_all)
  ultimately show ?thesis
    using found by simp
qed

lemma proxy_admin_name: "is_proxy_or_admin (proxy_admin_contract fs vs)"
  by (simp add: is_proxy_or_admin_def proxy_admin_contract_def string_eval)

lemma upgradeTo_name:
  "\<exists>p \<in> UPGRADE_PATTERNS. str_in p (strip_underscores (lower ''upgradeTo''))"
  by (simp add: UPGRADE_PATTERNS_def string_eval)

lemma upgradeTo_not_scheduling:
  "\<not> any_in [''schedule'', ''queue'', ''execute''] (lower ''upgradeTo'')"
  by (simp add: string_eval)

lemma assign_implementation_plain:
  "(\<forall>p \<in> TIMELOCK_PATTERNS. \<not> str_in p (lower (n_str assign_implementation_node)))
   \<and> \<not> (str_in ''block.timestamp'' (lower (n_str assign_implementation_node))
        \<and> str_in ''>='' (lower (n_str assign_implementation_node)))"
  by (simp add: assign_implementation_node_def plain_node_def TIMELOCK_PATTERNS_def string_eval)

lemma implementation_variable_plain:
  "\<forall>p \<in> TIMELOCK_PATTERNS. \<not> str_in p (lower ''implementation'')"
  by (simp add: TIMELOCK_PATTERNS_def string_eval)

lemma upgradeTo_detected:
  assumes "set_iteration iter"
  shows "upgrade_no_timelock_detect iter
     (unit_of [proxy_admin_contract [plain_function ''upgradeTo'' [assign_implementation_node]]
                 [plain_variable ''implementation'']])
   = [upgrade_finding (plain_function ''upgradeTo'' [assign_implementation_node])]"
proof -
  let ?f = "plain_function ''upgradeTo'' [assign_implementation_node]"
  let ?c = "proxy_admin_contract [?f] [plain_variable ''implementation'']"
  have up: "is_upgrade_function iter ?f"
    using upgradeTo_name
    by (simp add: is_upgrade_function_def any_in_iter [OF assms] finite_UPGRADE_PATTERNS
          plain_function_def)
  have no_tl: "\<not> contract_has_timelock iter ?c"
    using implementation_variable_plain upgradeTo_not_scheduling
    by (simp add: contract_has_timelock_def any_in_iter [OF assms] finite_TIMELOCK_PATTERNS
          proxy_admin_contract_def plain_variable_def plain_function_def)
  have no_delay: "\<not> upgrade_function_has_delay iter ?f"
    using assign_implementation_plain
    by (simp add: upgrade_function_has_delay_def upgrade_delay_nodes_iff
          any_in_iter [OF assms] finite_TIMELOCK_PATTERNS plain_function_def)
  have "upgrade_no_timelock_contract iter ?c = [upgrade_finding ?f]"
    using proxy_admin_name [of "[?f]" "[plain_variable ''implementation'']"] up no_tl no_delay
    by (simp add: upgrade_no_timelock_contract_def Let_def)
       (simp add: proxy_admin_contract_def)
  then show ?thesis
    by (simp add: upgrade_no_timelock_detect_def unit_of_def)
qed

theorem upgrade_without_timelock_reported_witness:
  "upgrade_no_timelock_detect sorted_list_of_set
     (unit_of [proxy_admin_contract [plain_function ''upgradeTo'' [assign_implementation_node]]
                 [plain_variable ''implementation'']])
   = [upgrade_finding (plain_function ''upgradeTo'' [assign_implementation_node])]
   \<and> upgrade_no_timelock_contract sorted_list_of_set
       (proxy_admin_contract [plain_function ''upgradeTo'' [assign_implementation_node]]
          [plain_variable ''implementation'', plain_variable ''timelockDelay'']) = []"
proof -
  let ?f = "plain_function ''upgradeTo'' [assign_implementation_node]"
  let ?c = "proxy_admin_contract [?f] [plain_variable ''implementation'']"
  have a: "?c \<in> set (contracts_derived (unit_of [?c]))" "?f \<in> set (c_functions ?c)"
    by (simp_all add: unit_of_def proxy_admin_contract_def)
  have b: "\<exists>p \<in> UPGRADE_PATTERNS. str_in p (strip_underscores (lower (f_name ?f)))"
    using upgradeTo_name by (simp add: plain_function_def)
  have c: "\<forall>v \<in> set (c_state_variables ?c). \<forall>p \<in> TIMELOCK_PATTERNS.
             \<not> str_in p (lower (v_name v))"
    using implementation_variable_plain
    by (simp add: proxy_admin_contract_def plain_variable_def)
  have d: "\<forall>g \<in> set (c_functions ?c).
             \<not> any_in [''schedule'', ''queue'', ''execute''] (lower (f_name g))"
    using upgradeTo_not_scheduling
    by (simp add: proxy_admin_contract_def plain_function_def)
  have e: "\<forall>n \<in> set (f_nodes ?f).
           (\<forall>p \<in> TIMELOCK_PATTERNS. \<not> str_in p (lower (n_str n)))
           \<and> \<not> (str_in ''block.timestamp'' (lower (n_str n)) \<and> str_in ''>='' (lower (n_str n)))"
    using assign_implementation_plain by (simp add: plain_function_def)
  have var: "(plain_variable ''implementation'')\<lparr>v_name := ''timelockDelay''\<rparr>
      = (plain_variable ''timelockDelay'')\<lparr>v_canonical_name := ''ProxyAdmin.implementation''\<rparr>"
    by (simp add: plain_variable_def)
  note inst = upgrade_without_timelock_reported [OF sorted_iteration a proxy_admin_name b c d e,
      of "[plain_variable ''implementation'']" "plain_variable ''timelockDelay''" "[]"]
  have one: "length (upgrade_no_timelock_detect sorted_list_of_set (unit_of [?c])) \<le> 1"
    by (simp add: upgrade_no_timelock_detect_def unit_of_def upgrade_no_timelock_contract_def
          proxy_admin_contract_def Let_def)
  have first: "upgrade_no_timelock_detect sorted_list_of_set (unit_of [?c])
       = [upgrade_finding ?f]"
  proof (cases "upgrade_no_timelock_detect sorted_list_of_set (unit_of [?c])")
    case Nil
    with inst show ?thesis by simp
  next
    case (Cons x xs)
    with one have "xs = []" by simp
    with Cons inst show ?thesis by auto
  qed
  have second: "upgrade_no_timelock_contract sorted_list_of_set
       (proxy_admin_contract [?f]
          [plain_variable ''implementation'', plain_variable ''timelockDelay'']) = []"
    using inst by (simp add: proxy_admin_contract_def plain_variable_def)
  from first second show ?thesis by simp
qed

text \<open>
  C3 as stated fails on the code: with \<^verbatim>\<open>require(block.timestamp >= readyAt)\<close> in the body
  of \<open>upgradeTo\<close>, no state variable, function name or node contains a timelock pattern,
  and yet \<open>_function_has_delay\<close> accepts the timestamp comparison and the rule reports
  nothing.
\<close>

theorem upgrade_timestamp_check_counterexample:
  "is_proxy_or_admin
     (proxy_admin_contract
        [plain_function ''upgradeTo'' [ready_check_node, assign_implementation_node]]
        [plain_variable ''implementation''])
   \<and> (\<exists>p \<in> UPGRADE_PATTERNS. str_in p (strip_underscores (lower ''upgradeTo'')))
   \<and> \<not> (\<exists>p \<in> TIMELOCK_PATTERNS. str_in p (lower ''implementation''))
   \<and> \<not> any_in [''schedule'', ''queue'', ''execute''] (lower ''upgradeTo'')
   \<and> \<not> (\<exists>n \<in> set [ready_check_node, assign_implementation_node].
           \<exists>p \<in> TIMELOCK_PATTERNS. str_in p (lower (n_str n)))
   \<and> upgrade_no_timelock_detect sorted_list_of_set
        (unit_of [proxy_admin_contract
           [plain_function ''upgradeTo'' [ready_check_node, assign_implementation_node]]
           [plain_variable ''implementation'']]) = []"
proof -
  have ready: "str_in ''block.timestamp'' (lower (n_str ready_check_node))
      \<and> str_in ''>='' (lower (n_str ready_check_node))"
    by (simp add: ready_check_node_def plain_node_def string_eval)
  have ready_plain: "\<not> (\<exists>p \<in> TIMELOCK_PATTERNS. str_in p (lower (n_str ready_check_node)))"
    by (simp add: ready_check_node_def plain_node_def TIMELOCK_PATTERNS_def string_eval)
  have "upgrade_function_has_delay sorted_list_of_set
          (plain_function ''upgradeTo'' [ready_check_node, assign_implementation_node])"
    using ready
    by (simp add: upgrade_function_has_delay_def plain_function_def Let_def)
  then have "upgrade_no_timelock_detect sorted_list_of_set
        (unit_of [proxy_admin_contract
           [plain_function ''upgradeTo'' [ready_check_node, assign_implementation_node]]
           [plain_variable ''implementation'']]) = []"
    by (simp add: upgrade_no_timelock_detect_def unit_of_def upgrade_no_timelock_contract_def
          proxy_admin_contract_def Let_def)
  then show ?thesis
    using proxy_admin_name upgradeTo_name implementation_variable_plain
      upgradeTo_not_scheduling ready_plain assign_implementation_plain
    by (simp)
qed

section \<open>The catalogue on a model without contracts\<close>

lemmas detect_defs =
  missing_slippage_detect_def excessive_slippage_detect_def missing_deadline_detect_def
  flash_loan_detect_def oracle_manipulation_detect_def sequencer_dependency_detect_def
  message_risk_detect_def address_aliasing_detect_def gas_calculation_detect_def
  reorg_risk_detect_def slashing_risk_detect_def delegation_risk_detect_def
  intent_replay_detect_def solver_collusion_detect_def points_sybil_detect_def
  merkle_proof_detect_def upgrade_no_timelock_detect_def shared_deployer_detect_def
  bridge_exit_detect_def emergency_withdraw_detect_def multisig_bypass_detect_def
  zero_point_detect_def rogue_key_detect_def sig_malleability_detect_def zk_gap_detect_def
  precompile_gas_detect_def tier_boundary_detect_def ghost_staker_detect_def
  cascade_dos_detect_def position_gaming_detect_def fenwick_detect_def

lemma ALL_DETECTORS_complete: "set ALL_DETECTORS = UNIV"
proof -
  have "d \<in> set ALL_DETECTORS" for d
    by (cases d)
       (simp_all add: ALL_DETECTORS_def MEV_DETECTORS_def L2_DETECTORS_def
          EMERGING_DETECTORS_def ADMIN_DETECTORS_def CRYPTO_DETECTORS_def FCFS_DETECTORS_def)
  then show ?thesis by auto
qed

lemma ALL_DETECTORS_count: "length ALL_DETECTORS = 31 \<and> distinct ALL_DETECTORS"
  by (simp add: ALL_DETECTORS_def MEV_DETECTORS_def L2_DETECTORS_def
        EMERGING_DETECTORS_def ADMIN_DETECTORS_def CRYPTO_DETECTORS_def FCFS_DETECTORS_def)

text \<open>
  C7. Every detector of \<open>ALL_DETECTORS\<close> returns the empty list, and raises nothing, on a
  compilation unit without contracts: every \<open>_detect\<close> loops over \<open>contracts_derived\<close>,
  and the one check made before the loop, in \<open>SequencerDependency\<close>, loops over
  \<open>contracts\<close>.
\<close>

theorem empty_model_no_findings:
  assumes "d \<in> set ALL_DETECTORS" and "contracts cu = []" and "contracts_derived cu = []"
  shows "detect iter dep d cu = Inr []"
  using assms(2,3) by (cases d) (simp_all add: detect_defs)

theorem empty_model_no_findings_witness:
  "list_all (\<lambda>d. detect sorted_list_of_set direct_dependency d (unit_of []) = Inr [])
     ALL_DETECTORS
   \<and> length ALL_DETECTORS = 31"
proof -
  have "detect sorted_list_of_set direct_dependency d (unit_of []) = Inr []"
    if "d \<in> set ALL_DETECTORS" for d
    using empty_model_no_findings [OF that, of "unit_of []"] by (simp add: unit_of_def)
  then show ?thesis
    using ALL_DETECTORS_count by (simp add: list_all_iff)
qed

section \<open>Independence of the order in which sets are visited\<close>

lemma set_flag_iff: "set_flag init P xs = (init \<or> (\<exists>x \<in> set xs. P x))"
  unfolding set_flag_def by (induction xs arbitrary: init) auto

lemma finite_pattern_sets:
  "finite DEX_SWAP_FUNCTIONS" "finite SPOT_PRICE_FUNCTIONS" "finite TWAP_FUNCTIONS"
  "finite TIME_SENSITIVE_FUNCTIONS" "finite SEQUENCER_CHECK_PATTERNS" "finite L1L2_PATTERNS"
  "finite UPGRADE_PATTERNS" "finite TIMELOCK_PATTERNS" "finite ADMIN_PATTERNS"
  "finite EMERGENCY_PATTERNS" "finite SLASHING_PATTERNS" "finite DELEGATION_PATTERNS"
  "finite INTENT_PATTERNS" "finite POINTS_PATTERNS"
  by (simp_all add: DEX_SWAP_FUNCTIONS_def SPOT_PRICE_FUNCTIONS_def TWAP_FUNCTIONS_def
        TIME_SENSITIVE_FUNCTIONS_def SEQUENCER_CHECK_PATTERNS_def L1L2_PATTERNS_def
        UPGRADE_PATTERNS_def TIMELOCK_PATTERNS_def ADMIN_PATTERNS_def EMERGENCY_PATTERNS_def
        SLASHING_PATTERNS_def DELEGATION_PATTERNS_def INTENT_PATTERNS_def POINTS_PATTERNS_def)

lemma any_in_order:
  assumes "set_iteration i1" "set_iteration i2" "finite S"
  shows "any_in (i1 S) = any_in (i2 S)"
  using assms by (simp add: fun_eq_iff any_in_iter)

lemma set_flag_order:
  assumes "set_iteration i1" "set_iteration i2" "finite S"
  shows "set_flag init P (i1 S) = set_flag init P (i2 S)"
  using assms by (simp add: set_flag_iff iter_set)

lemma slippage_issue_order:
  assumes "set_iteration i1" "set_iteration i2"
  shows "slippage_issue i1 = slippage_issue i2"
proof (intro ext)
  fix dep f node ir
  show "slippage_issue i1 dep f node ir = slippage_issue i2 dep f node ir"
    by (cases ir)
       (simp_all add: iter_set [OF assms(1) finite_pattern_sets(1)]
          iter_set [OF assms(2) finite_pattern_sets(1)])
qed

lemma missing_slippage_function_order:
  assumes "set_iteration i1" "set_iteration i2"
  shows "missing_slippage_function i1 dep = missing_slippage_function i2 dep"
  by (simp add: fun_eq_iff missing_slippage_function_def check_function_slippage_def
        slippage_issue_order [OF assms])

lemma missing_slippage_order:
  assumes "set_iteration i1" "set_iteration i2"
  shows "missing_slippage_detect i1 dep cu = missing_slippage_detect i2 dep cu"
  by (simp add: missing_slippage_detect_def missing_slippage_function_order [OF assms])

lemma oracle_manipulation_order:
  assumes "set_iteration i1" "set_iteration i2"
  shows "oracle_manipulation_detect i1 cu = oracle_manipulation_detect i2 cu"
  unfolding oracle_manipulation_detect_def check_oracle_usage_def
        set_flag_order [OF assms finite_pattern_sets(2)]
        set_flag_order [OF assms finite_pattern_sets(3)]
  by simp

lemma sequencer_dependency_order:
  assumes "set_iteration i1" "set_iteration i2"
  shows "sequencer_dependency_detect i1 cu = sequencer_dependency_detect i2 cu"
  unfolding sequencer_dependency_detect_def is_time_sensitive_def
        contract_checks_sequencer_def
        any_in_order [OF assms finite_pattern_sets(4)]
        any_in_order [OF assms finite_pattern_sets(5)]
  by simp

lemma message_risk_order:
  assumes "set_iteration i1" "set_iteration i2"
  shows "message_risk_detect i1 cu = message_risk_detect i2 cu"
  unfolding message_risk_detect_def is_message_handler_def
        any_in_order [OF assms finite_pattern_sets(6)]
  by simp

lemma upgrade_delay_nodes_order:
  assumes "set_iteration i1" "set_iteration i2"
  shows "upgrade_delay_nodes i1 = upgrade_delay_nodes i2"
  unfolding fun_eq_iff upgrade_delay_nodes_iff
        any_in_order [OF assms finite_pattern_sets(8)]
  by simp

lemma upgrade_function_has_delay_order:
  assumes "set_iteration i1" "set_iteration i2"
  shows "upgrade_function_has_delay i1 = upgrade_function_has_delay i2"
  unfolding fun_eq_iff upgrade_function_has_delay_def upgrade_delay_nodes_order [OF assms]
  by simp

lemma upgrade_no_timelock_contract_order:
  assumes "set_iteration i1" "set_iteration i2"
  shows "upgrade_no_timelock_contract i1 = upgrade_no_timelock_contract i2"
  unfolding fun_eq_iff upgrade_no_timelock_contract_def is_upgrade_function_def
    contract_has_timelock_def
    any_in_order [OF assms finite_pattern_sets(7)]
    any_in_order [OF assms finite_pattern_sets(8)]
    upgrade_function_has_delay_order [OF assms]
  by simp

lemma upgrade_no_timelock_order:
  assumes "set_iteration i1" "set_iteration i2"
  shows "upgrade_no_timelock_detect i1 cu = upgrade_no_timelock_detect i2 cu"
  unfolding upgrade_no_timelock_detect_def upgrade_no_timelock_contract_order [OF assms]
  by simp

lemma bridge_exit_order:
  assumes "set_iteration i1" "set_iteration i2"
  shows "bridge_exit_detect i1 cu = bridge_exit_detect i2 cu"
  unfolding bridge_exit_detect_def is_admin_withdrawal_def
        any_in_order [OF assms finite_pattern_sets(9)]
  by simp

lemma emergency_withdraw_order:
  assumes "set_iteration i1" "set_iteration i2"
  shows "emergency_withdraw_detect i1 cu = emergency_withdraw_detect i2 cu"
  unfolding emergency_withdraw_detect_def is_emergency_function_def
        any_in_order [OF assms finite_pattern_sets(10)]
  by simp

lemma slashing_risk_order:
  assumes "set_iteration i1" "set_iteration i2"
  shows "slashing_risk_detect i1 cu = slashing_risk_detect i2 cu"
  unfolding slashing_risk_detect_def is_slashing_function_def
        any_in_order [OF assms finite_pattern_sets(11)]
  by simp

lemma delegation_risk_order:
  assumes "set_iteration i1" "set_iteration i2"
  shows "delegation_risk_detect i1 cu = delegation_risk_detect i2 cu"
  unfolding delegation_risk_detect_def is_delegation_function_def
        any_in_order [OF assms finite_pattern_sets(12)]
  by simp

lemma intent_replay_order:
  assumes "set_iteration i1" "set_iteration i2"
  shows "intent_replay_detect i1 cu = intent_replay_detect i2 cu"
  unfolding intent_replay_detect_def is_intent_handler_def
        any_in_order [OF assms finite_pattern_sets(13)]
  by simp

lemma points_sybil_order:
  assumes "set_iteration i1" "set_iteration i2"
  shows "points_sybil_detect i1 cu = points_sybil_detect i2 cu"
  unfolding points_sybil_detect_def is_points_function_def
        any_in_order [OF assms finite_pattern_sets(14)]
  by simp

lemma reverse_sorted_iteration: "set_iteration reverse_sorted"
  by (simp add: set_iteration_def reverse_sorted_def)

text \<open>
  C6. The detectors are functions of the rule and the model; they return findings and
  nothing else, so no evaluation changes a contract, function or node. The one input
  from outside the model is the order in which the process visits a pattern set, and the
  result does not depend on it: two evaluations of a rule on the same model, whatever
  the two orders, return the same finding sequence (or the same error).
\<close>

theorem evaluation_deterministic:
  assumes "set_iteration iter1" and "set_iteration iter2"
  shows "detect iter1 dep d cu = detect iter2 dep d cu"
  by (cases d)
     (simp_all add: missing_slippage_order [OF assms] oracle_manipulation_order [OF assms]
        sequencer_dependency_order [OF assms] message_risk_order [OF assms]
        upgrade_no_timelock_order [OF assms] bridge_exit_order [OF assms]
        emergency_withdraw_order [OF assms] slashing_risk_order [OF assms]
        delegation_risk_order [OF assms] intent_replay_order [OF assms]
        points_sybil_order [OF assms])

lemma timelock_orders_differ:
  "sorted_list_of_set TIMELOCK_PATTERNS \<noteq> reverse_sorted TIMELOCK_PATTERNS"
proof
  let ?xs = "sorted_list_of_set TIMELOCK_PATTERNS"
  assume eq: "?xs = reverse_sorted TIMELOCK_PATTERNS"
  have len: "length ?xs = 6"
    by (simp add: TIMELOCK_PATTERNS_def)
  have d: "distinct ?xs"
    by simp
  from eq have "?xs ! 0 = rev ?xs ! 0"
    by (simp add: reverse_sorted_def)
  also have "\<dots> = ?xs ! 5"
    using len by (simp add: rev_nth)
  finally have "?xs ! 0 = ?xs ! 5" .
  with d len show False
    by (simp add: nth_eq_iff_index_eq)
qed

theorem evaluation_deterministic_witness:
  "detect sorted_list_of_set direct_dependency ProxyUpgradeNoTimelock
     (unit_of [proxy_admin_contract [plain_function ''upgradeTo'' [assign_implementation_node]]
                 [plain_variable ''implementation'']])
   = detect reverse_sorted direct_dependency ProxyUpgradeNoTimelock
     (unit_of [proxy_admin_contract [plain_function ''upgradeTo'' [assign_implementation_node]]
                 [plain_variable ''implementation'']])
   \<and> detect reverse_sorted direct_dependency ProxyUpgradeNoTimelock
     (unit_of [proxy_admin_contract [plain_function ''upgradeTo'' [assign_implementation_node]]
                 [plain_variable ''implementation'']])
   = Inr [upgrade_finding (plain_function ''upgradeTo'' [assign_implementation_node])]
   \<and> sorted_list_of_set TIMELOCK_PATTERNS \<noteq> reverse_sorted TIMELOCK_PATTERNS"
  using evaluation_deterministic [OF sorted_iteration reverse_sorted_iteration,
      of direct_dependency ProxyUpgradeNoTimelock
         "unit_of [proxy_admin_contract
                     [plain_function ''upgradeTo'' [assign_implementation_node]]
                     [plain_variable ''implementation'']]"]
    upgradeTo_detected [OF reverse_sorted_iteration] timelock_orders_differ
  by simp

section \<open>Fault isolation in the runner\<close>


















end
